theory Spec2Isabelle
  imports Complex_Main
begin

section \<open>The canvas renderer of SVGAPlayer-Web-Lite\<close>

text \<open>
  A shallow embedding of \<^verbatim>\<open>src/player/offscreen.canvas.render.ts\<close>: the function
  \<^verbatim>\<open>render\<close> and its helpers \<^verbatim>\<open>resetShapeStyles\<close>, \<^verbatim>\<open>drawBezier\<close>,
  \<^verbatim>\<open>drawBezierElement\<close>, \<^verbatim>\<open>drawEllipse\<close> and \<^verbatim>\<open>drawRect\<close>.
  The 2D context is an external object; what the code does to it is the list of method
  calls and property assignments it issues, in order. Every function of the model returns
  that list.
\<close>

subsection \<open>JavaScript numbers\<close>

text \<open>
  A JavaScript number is modelled as an exact real, \<open>NaN\<close>, or one of the two
  infinities. Rounding to binary64 and the sign of zero are not modelled: a zero divisor is
  taken as \<open>+0\<close>. An operand that is \<^verbatim>\<open>undefined\<close> behaves like \<open>NaN\<close> in every
  arithmetic operation, comparison and truth test of this file, so \<open>Number(undefined)\<close>
  is \<open>NaN\<close> here.
\<close>

datatype jsnum = NaN | NInf | Num real | PInf

fun js_truthy :: "jsnum \<Rightarrow> bool" where
  "js_truthy NaN = False"
| "js_truthy (Num r) = (r \<noteq> 0)"
| "js_truthy NInf = True"
| "js_truthy PInf = True"

fun js_neg :: "jsnum \<Rightarrow> jsnum" where
  "js_neg NaN = NaN"
| "js_neg NInf = PInf"
| "js_neg PInf = NInf"
| "js_neg (Num r) = Num (- r)"

fun js_add :: "jsnum \<Rightarrow> jsnum \<Rightarrow> jsnum" where
  "js_add (Num r) (Num s) = Num (r + s)"
| "js_add NaN _ = NaN"
| "js_add _ NaN = NaN"
| "js_add PInf NInf = NaN"
| "js_add NInf PInf = NaN"
| "js_add PInf _ = PInf"
| "js_add _ PInf = PInf"
| "js_add NInf _ = NInf"
| "js_add _ NInf = NInf"

definition js_sub :: "jsnum \<Rightarrow> jsnum \<Rightarrow> jsnum" where
  "js_sub u v = js_add u (js_neg v)"

fun js_mul :: "jsnum \<Rightarrow> jsnum \<Rightarrow> jsnum" where
  "js_mul (Num r) (Num s) = Num (r * s)"
| "js_mul NaN _ = NaN"
| "js_mul _ NaN = NaN"
| "js_mul (Num r) v = (if r = 0 then NaN else if 0 < r then v else js_neg v)"
| "js_mul u (Num s) = (if s = 0 then NaN else if 0 < s then u else js_neg u)"
| "js_mul PInf v = v"
| "js_mul NInf v = js_neg v"

fun js_div :: "jsnum \<Rightarrow> jsnum \<Rightarrow> jsnum" where
  "js_div (Num r) (Num s) =
     (if s = 0 then (if r = 0 then NaN else if 0 < r then PInf else NInf)
      else Num (r / s))"
| "js_div NaN _ = NaN"
| "js_div _ NaN = NaN"
| "js_div (Num r) _ = Num 0"
| "js_div u (Num s) = (if s < 0 then js_neg u else u)"
| "js_div _ _ = NaN"

text \<open>The relational operator \<^verbatim>\<open><\<close>: false as soon as an operand is \<open>NaN\<close>.\<close>

fun js_lt :: "jsnum \<Rightarrow> jsnum \<Rightarrow> bool" where
  "js_lt (Num r) (Num s) = (r < s)"
| "js_lt NaN _ = False"
| "js_lt _ NaN = False"
| "js_lt _ NInf = False"
| "js_lt NInf _ = True"
| "js_lt PInf _ = False"
| "js_lt _ PInf = True"

text \<open>\<^verbatim>\<open>Math.min\<close> and \<^verbatim>\<open>Math.max\<close> of two arguments.\<close>

fun Math_min :: "jsnum \<Rightarrow> jsnum \<Rightarrow> jsnum" where
  "Math_min NaN _ = NaN"
| "Math_min _ NaN = NaN"
| "Math_min u v = (if js_lt v u then v else u)"

fun Math_max :: "jsnum \<Rightarrow> jsnum \<Rightarrow> jsnum" where
  "Math_max NaN _ = NaN"
| "Math_max _ NaN = NaN"
| "Math_max u v = (if js_lt u v then v else u)"

text \<open>
  \<^verbatim>\<open>f || dflt\<close> on a numeric field that may be absent: the default is taken when the
  field is absent and also when it is present with a falsy value (zero or \<open>NaN\<close>).
\<close>

fun num_or :: "jsnum option \<Rightarrow> jsnum \<Rightarrow> jsnum" where
  "num_or None dflt = dflt"
| "num_or (Some v) dflt = (if js_truthy v then v else dflt)"

text \<open>\<^verbatim>\<open>f || undefined\<close>: a falsy field becomes \<^verbatim>\<open>undefined\<close> (\<open>None\<close>).\<close>

fun num_or_undefined :: "jsnum option \<Rightarrow> jsnum option" where
  "num_or_undefined None = None"
| "num_or_undefined (Some v) = (if js_truthy v then Some v else None)"

text \<open>The same two operators on a string field; the empty string is falsy.\<close>

fun str_or :: "string option \<Rightarrow> string \<Rightarrow> string" where
  "str_or None dflt = dflt"
| "str_or (Some s) dflt = (if s = [] then dflt else s)"

fun str_or_undefined :: "string option \<Rightarrow> string option" where
  "str_or_undefined None = None"
| "str_or_undefined (Some s) = (if s = [] then None else Some s)"

fun str_truthy :: "string option \<Rightarrow> bool" where
  "str_truthy None = False"
| "str_truthy (Some s) = (s \<noteq> [])"

subsection \<open>JavaScript strings\<close>

text \<open>
  A string is a list of 8-bit character codes. The string methods the path interpreter
  uses are written out: \<^verbatim>\<open>split\<close> with a non-empty separator (the only use in the
  source), \<^verbatim>\<open>trim\<close>, and the conversion \<^verbatim>\<open>Number\<close>.
\<close>

definition is_letter :: "char \<Rightarrow> bool" where
  "is_letter ch =
     (let n = (of_char ch :: nat) in (65 \<le> n \<and> n \<le> 90) \<or> (97 \<le> n \<and> n \<le> 122))"

definition is_digit :: "char \<Rightarrow> bool" where
  "is_digit ch = (let n = (of_char ch :: nat) in 48 \<le> n \<and> n \<le> 57)"

text \<open>White space and line terminators among the 8-bit codes: TAB, LF, VT, FF, CR, SP, NBSP.\<close>

definition is_space :: "char \<Rightarrow> bool" where
  "is_space ch = ((of_char ch :: nat) \<in> {9, 10, 11, 12, 13, 32, 160})"

definition trim :: "string \<Rightarrow> string" where
  "trim s = rev (dropWhile is_space (rev (dropWhile is_space s)))"

text \<open>
  \<open>split_from sep acc s\<close> scans \<open>s\<close> from the left; \<open>acc\<close> holds, reversed, the
  characters read since the last separator. Occurrences of the separator are found left to
  right and do not overlap.
\<close>

fun split_from :: "string \<Rightarrow> string \<Rightarrow> string \<Rightarrow> string list" where
  "split_from sep acc [] = [rev acc]"
| "split_from sep acc (ch # cs) =
     (if take (length sep) (ch # cs) = sep
      then rev acc # split_from sep [] (drop (length sep - 1) cs)
      else split_from sep (ch # acc) cs)"

definition split :: "string \<Rightarrow> string \<Rightarrow> string list" where
  "split s sep = split_from sep [] s"

text \<open>\<^verbatim>\<open>s.replace(/([a-zA-Z])/g, '|||$1 ')\<close> and \<^verbatim>\<open>s.replace(/,/g, ' ')\<close>.\<close>

definition replace_letters :: "string \<Rightarrow> string" where
  "replace_letters s =
     concat (map (\<lambda>ch. if is_letter ch then ''|||'' @ [ch] @ '' '' else [ch]) s)"

definition replace_commas :: "string \<Rightarrow> string" where
  "replace_commas s = map (\<lambda>ch. if ch = CHR '','' then CHR '' '' else ch) s"

text \<open>
  \<^verbatim>\<open>Number(s)\<close> on a string, by the grammar of numeric string literals: white space
  is trimmed; the empty string is \<open>0\<close>; a decimal literal is an optional sign, then
  \<^verbatim>\<open>Infinity\<close> or digits with an optional fraction and an optional exponent; an
  unsigned literal with the prefix \<^verbatim>\<open>0x\<close>, \<^verbatim>\<open>0o\<close> or \<^verbatim>\<open>0b\<close> is read in
  that radix; anything else is \<open>NaN\<close>.
\<close>

definition digit_val :: "char \<Rightarrow> nat" where
  "digit_val ch =
     (let n = (of_char ch :: nat) in
      if 48 \<le> n \<and> n \<le> 57 then n - 48
      else if 97 \<le> n \<and> n \<le> 102 then n - 87
      else if 65 \<le> n \<and> n \<le> 70 then n - 55
      else 16)"

definition digits_val :: "nat \<Rightarrow> string \<Rightarrow> nat" where
  "digits_val radix ds = foldl (\<lambda>n ch. radix * n + digit_val ch) 0 ds"

definition radix_literal :: "nat \<Rightarrow> string \<Rightarrow> jsnum" where
  "radix_literal radix ds =
     (if ds \<noteq> [] \<and> list_all (\<lambda>ch. digit_val ch < radix) ds
      then Num (real (digits_val radix ds)) else NaN)"

definition signed_integer :: "string \<Rightarrow> int option" where
  "signed_integer s =
     (case s of
        [] \<Rightarrow> None
      | ch # cs \<Rightarrow>
          if ch = CHR ''+'' \<or> ch = CHR ''-'' then
            (if cs \<noteq> [] \<and> list_all is_digit cs
             then Some (if ch = CHR ''-'' then - int (digits_val 10 cs)
                        else int (digits_val 10 cs))
             else None)
          else if list_all is_digit (ch # cs) then Some (int (digits_val 10 (ch # cs)))
          else None)"

definition exponent_part :: "string \<Rightarrow> int option" where
  "exponent_part s =
     (case s of
        [] \<Rightarrow> Some 0
      | ch # cs \<Rightarrow> if ch = CHR ''e'' \<or> ch = CHR ''E'' then signed_integer cs else None)"

definition scale10 :: "real \<Rightarrow> int \<Rightarrow> real" where
  "scale10 m k = (if 0 \<le> k then m * 10 ^ nat k else m / 10 ^ nat (- k))"

definition unsigned_decimal :: "string \<Rightarrow> jsnum" where
  "unsigned_decimal s =
     (if s = ''Infinity'' then PInf
      else
        (let ip = takeWhile is_digit s;
             r1 = dropWhile is_digit s;
             fp = (case r1 of [] \<Rightarrow> []
                   | ch # t \<Rightarrow> if ch = CHR ''.'' then takeWhile is_digit t else []);
             r2 = (case r1 of [] \<Rightarrow> []
                   | ch # t \<Rightarrow> if ch = CHR ''.'' then dropWhile is_digit t else r1)
         in if ip = [] \<and> fp = [] then NaN
            else
              (case exponent_part r2 of
                 None \<Rightarrow> NaN
               | Some k \<Rightarrow>
                   Num (scale10 (real (digits_val 10 ip)
                                 + real (digits_val 10 fp) / 10 ^ length fp) k))))"

definition Number :: "string \<Rightarrow> jsnum" where
  "Number s =
     (case trim s of
        [] \<Rightarrow> Num 0
      | ch # cs \<Rightarrow>
          if ch = CHR ''0'' \<and> (take 1 cs = ''x'' \<or> take 1 cs = ''X'') then
            radix_literal 16 (drop 1 cs)
          else if ch = CHR ''0'' \<and> (take 1 cs = ''o'' \<or> take 1 cs = ''O'') then
            radix_literal 8 (drop 1 cs)
          else if ch = CHR ''0'' \<and> (take 1 cs = ''b'' \<or> take 1 cs = ''B'') then
            radix_literal 2 (drop 1 cs)
          else if ch = CHR ''-'' then js_neg (unsigned_decimal cs)
          else if ch = CHR ''+'' then unsigned_decimal cs
          else unsigned_decimal (ch # cs))"

text \<open>\<^verbatim>\<open>Number(args[i])\<close>: an index past the end reads \<^verbatim>\<open>undefined\<close>.\<close>

definition arg :: "string list \<Rightarrow> nat \<Rightarrow> jsnum" where
  "arg args i = (if i < length args then Number (args ! i) else NaN)"

subsection \<open>The data the renderer reads\<close>

text \<open>
  The declarations of \<^verbatim>\<open>VideoEntity\<close>, \<^verbatim>\<open>ImageSources\<close>, \<^verbatim>\<open>DynamicElement\<close>,
  \<^verbatim>\<open>IParseStyles\<close>, \<^verbatim>\<open>IBezierPath\<close>, \<^verbatim>\<open>EllipsePath\<close> and \<^verbatim>\<open>RectPath\<close> live in
  other modules; the records below hold the fields this file reads. Field names carry a
  prefix so that they do not capture variable names: \<open>t_a\<close> is \<^verbatim>\<open>transform.a\<close>,
  \<open>cp_x1\<close> is \<^verbatim>\<open>currentPoint.x1\<close>, and so on. A numeric field that the source guards
  with \<^verbatim>\<open>||\<close> may be absent (\<open>None\<close>).
\<close>

text \<open>
  A drawable (\<^verbatim>\<open>CanvasImageSource\<close>), with the two dimensions the renderer reads from
  it: \<^verbatim>\<open>naturalWidth/naturalHeight\<close> of an image element, \<^verbatim>\<open>videoWidth/videoHeight\<close>
  of a video element, \<^verbatim>\<open>width.baseVal.value/height.baseVal.value\<close> of an SVG image,
  and \<^verbatim>\<open>width/height\<close> of anything else (a canvas, an image bitmap).
\<close>

datatype source =
    HTMLImageElement jsnum jsnum
  | HTMLVideoElement jsnum jsnum
  | SVGImageElement jsnum jsnum
  | OtherSource jsnum jsnum

text \<open>
  A dynamic element is either a bare drawable or an object \<^verbatim>\<open>{source, fit}\<close>; the test
  \<^verbatim>\<open>'fit' in dynamicElement\<close> tells them apart.
\<close>

datatype DynamicElement = Bare source | WithFit source string

record Transform =
  t_a :: "jsnum option"
  t_b :: "jsnum option"
  t_c :: "jsnum option"
  t_d :: "jsnum option"
  t_tx :: "jsnum option"
  t_ty :: "jsnum option"

text \<open>
  Modelled from the spec: the declaration of \<^verbatim>\<open>IParseStyles\<close> is missing; a style has
  a \<open>fill color or none, stroke color or none\<close>. A colour is its RGBA components.
\<close>

type_synonym rgba = "real list"

record IParseStyles =
  st_fill :: "rgba option"
  st_stroke :: "rgba option"
  st_fillStr :: "string option"
  st_strokeStr :: "string option"
  st_strokeWidth :: "jsnum option"
  st_lineCapStr :: "string option"
  st_lineJoinStr :: "string option"
  st_miterLimit :: "jsnum option"
  st_lineDashI :: "jsnum option"
  st_lineDashII :: "jsnum option"
  st_lineDashIII :: "jsnum option"

datatype ShapeType = SHAPE | RECT | ELLIPSE | KEEP

record ShapeArgs =
  sa_d :: "string option"

record EllipseArgs =
  ea_x :: "jsnum option"
  ea_y :: "jsnum option"
  ea_radiusX :: "jsnum option"
  ea_radiusY :: "jsnum option"

record RectArgs =
  ra_x :: "jsnum option"
  ra_y :: "jsnum option"
  ra_width :: "jsnum option"
  ra_height :: "jsnum option"
  ra_cornerRadius :: "jsnum option"

record ShapeEntity =
  sh_type :: ShapeType
  sh_shape :: "ShapeArgs option"
  sh_ellipse :: "EllipseArgs option"
  sh_rect :: "RectArgs option"
  sh_transform :: "Transform option"
  sh_styles :: "IParseStyles option"

record Layout =
  l_width :: jsnum
  l_height :: jsnum

record FrameEntity =
  f_alpha :: jsnum
  f_transform :: Transform
  f_layout :: Layout
  f_clipPath :: "string option"
  f_shapes :: "ShapeEntity list option"

record SpriteEntity =
  sp_imageKey :: "string option"
  sp_frames :: "FrameEntity list"

record VideoEntity =
  v_sprites :: "SpriteEntity list"

text \<open>The argument objects of the three shape painters.\<close>

record IBezierPath =
  bp_d :: string
  bp_transform :: "Transform option"
  bp_styles :: "IParseStyles option"

record EllipsePath =
  ep_x :: jsnum
  ep_y :: jsnum
  ep_radiusX :: jsnum
  ep_radiusY :: jsnum
  ep_transform :: "Transform option"
  ep_styles :: "IParseStyles option"

record RectPath =
  rp_x :: jsnum
  rp_y :: jsnum
  rp_width :: jsnum
  rp_height :: jsnum
  rp_cornerRadius :: jsnum
  rp_transform :: "Transform option"
  rp_styles :: "IParseStyles option"

record currentPoint =
  cp_x :: jsnum
  cp_y :: jsnum
  cp_x1 :: jsnum
  cp_y1 :: jsnum
  cp_x2 :: jsnum
  cp_y2 :: jsnum

subsection \<open>What the 2D context receives\<close>

text \<open>
  One constructor per method or property of the context that the source uses. The two
  forms of \<^verbatim>\<open>drawImage\<close> (three and five arguments) are kept apart. The context is
  taken to accept every call: an exception that the context itself raises (as
  \<^verbatim>\<open>arcTo\<close> does on a negative radius) is not part of the model.
\<close>

datatype call =
    Save
  | Restore
  | SetGlobalAlpha jsnum
  | TransformBy jsnum jsnum jsnum jsnum jsnum jsnum
  | Clip
  | DrawImage3 source jsnum jsnum
  | DrawImage5 source jsnum jsnum jsnum jsnum
  | SetStrokeStyle string
  | SetLineWidth "jsnum option"
  | SetLineCap "string option"
  | SetLineJoin "string option"
  | SetMiterLimit "jsnum option"
  | SetFillStyle string
  | SetLineDash "jsnum list"
  | BeginPath
  | MoveTo jsnum jsnum
  | LineTo jsnum jsnum
  | BezierCurveTo jsnum jsnum jsnum jsnum jsnum jsnum
  | QuadraticCurveTo jsnum jsnum jsnum jsnum
  | ArcTo jsnum jsnum jsnum jsnum jsnum
  | ClosePath
  | Fill
  | Stroke

subsection \<open>Styles, transforms and painting\<close>

text \<open>
  \<^verbatim>\<open>resetShapeStyles\<close> is only called with a style object that is present, so its
  tests \<^verbatim>\<open>styles?.\<close> and \<^verbatim>\<open>if (styles)\<close> succeed.
\<close>

definition resetShapeStyles :: "IParseStyles \<Rightarrow> call list" where
  "resetShapeStyles styles =
     [SetStrokeStyle (str_or (st_strokeStr styles) ''transparent''),
      SetLineWidth (num_or_undefined (st_strokeWidth styles)),
      SetLineCap (str_or_undefined (st_lineCapStr styles)),
      SetLineJoin (str_or_undefined (st_lineJoinStr styles)),
      SetMiterLimit (num_or_undefined (st_miterLimit styles)),
      SetFillStyle (str_or (st_fillStr styles) ''transparent'')] @
     (if num_or_undefined (st_lineDashI styles) \<noteq> None
         \<or> num_or_undefined (st_lineDashII styles) \<noteq> None
         \<or> num_or_undefined (st_lineDashIII styles) \<noteq> None
      then [SetLineDash
              [num_or (st_lineDashI styles) (Num 0),
               num_or (st_lineDashII styles) (Num 0),
               num_or (st_lineDashIII styles) (Num 0)]]
      else [])"

text \<open>\<^verbatim>\<open>obj._styles && resetShapeStyles(context, obj._styles)\<close>\<close>

definition styleCalls :: "IParseStyles option \<Rightarrow> call list" where
  "styleCalls st = (case st of None \<Rightarrow> [] | Some styles \<Rightarrow> resetShapeStyles styles)"

text \<open>
  The call \<^verbatim>\<open>context.transform(t.a || 1, t.b || 0, t.c || 0, t.d || 1, t.tx || 0,
  t.ty || 0)\<close>, written four times in the source with the same arguments.
\<close>

definition transformCall :: "Transform \<Rightarrow> call" where
  "transformCall t =
     TransformBy (num_or (t_a t) (Num 1)) (num_or (t_b t) (Num 0))
       (num_or (t_c t) (Num 0)) (num_or (t_d t) (Num 1))
       (num_or (t_tx t) (Num 0)) (num_or (t_ty t) (Num 0))"

text \<open>The guarded transform of a shape painter: nothing when the shape has no transform.\<close>

definition shapeTransform :: "Transform option \<Rightarrow> call list" where
  "shapeTransform tr = (case tr of None \<Rightarrow> [] | Some t \<Rightarrow> [transformCall t])"

text \<open>
  The end of each painter:
  \<^verbatim>\<open>if (s && s.fill) context.fill() else if (s && s.stroke) context.stroke()\<close>.
\<close>

definition paint :: "IParseStyles option \<Rightarrow> call list" where
  "paint st =
     (case st of
        None \<Rightarrow> []
      | Some styles \<Rightarrow>
          if st_fill styles \<noteq> None then [Fill]
          else if st_stroke styles \<noteq> None then [Stroke]
          else [])"

subsection \<open>The path interpreter\<close>

definition validMethods :: string where
  "validMethods = ''MLHVCSQRZmlhvcsqrz''"

text \<open>
  \<^verbatim>\<open>drawBezierElement\<close> updates \<^verbatim>\<open>currentPoint\<close> in place and issues at most one
  call; the model returns the new point and the calls. The source's \<^verbatim>\<open>switch\<close> is the
  chain of tests below, in the same order; \<open>R\<close> and \<open>r\<close> fall to the default.
\<close>

definition smoothCondition :: "currentPoint \<Rightarrow> bool" where
  "smoothCondition p =
     (js_truthy (cp_x1 p) \<and> js_truthy (cp_y1 p) \<and> js_truthy (cp_x2 p) \<and> js_truthy (cp_y2 p))"

definition bezierTo :: "currentPoint \<Rightarrow> currentPoint \<times> call list" where
  "bezierTo p =
     (p, [BezierCurveTo (cp_x1 p) (cp_y1 p) (cp_x2 p) (cp_y2 p) (cp_x p) (cp_y p)])"

definition quadraticTo :: "currentPoint \<Rightarrow> currentPoint \<times> call list" where
  "quadraticTo p = (p, [QuadraticCurveTo (cp_x1 p) (cp_y1 p) (cp_x p) (cp_y p)])"

definition moveTo :: "currentPoint \<Rightarrow> currentPoint \<times> call list" where
  "moveTo p = (p, [MoveTo (cp_x p) (cp_y p)])"

definition lineTo :: "currentPoint \<Rightarrow> currentPoint \<times> call list" where
  "lineTo p = (p, [LineTo (cp_x p) (cp_y p)])"

definition drawBezierElement ::
  "currentPoint \<Rightarrow> char \<Rightarrow> string list \<Rightarrow> currentPoint \<times> call list" where
  "drawBezierElement p method args =
    (if method = CHR ''M'' then
       moveTo (p\<lparr>cp_x := arg args 0, cp_y := arg args 1\<rparr>)
     else if method = CHR ''m'' then
       moveTo (p\<lparr>cp_x := js_add (cp_x p) (arg args 0), cp_y := js_add (cp_y p) (arg args 1)\<rparr>)
     else if method = CHR ''L'' then
       lineTo (p\<lparr>cp_x := arg args 0, cp_y := arg args 1\<rparr>)
     else if method = CHR ''l'' then
       lineTo (p\<lparr>cp_x := js_add (cp_x p) (arg args 0), cp_y := js_add (cp_y p) (arg args 1)\<rparr>)
     else if method = CHR ''H'' then
       lineTo (p\<lparr>cp_x := arg args 0\<rparr>)
     else if method = CHR ''h'' then
       lineTo (p\<lparr>cp_x := js_add (cp_x p) (arg args 0)\<rparr>)
     else if method = CHR ''V'' then
       lineTo (p\<lparr>cp_y := arg args 0\<rparr>)
     else if method = CHR ''v'' then
       lineTo (p\<lparr>cp_y := js_add (cp_y p) (arg args 0)\<rparr>)
     else if method = CHR ''C'' then
       bezierTo (p\<lparr>cp_x1 := arg args 0, cp_y1 := arg args 1,
                   cp_x2 := arg args 2, cp_y2 := arg args 3,
                   cp_x := arg args 4, cp_y := arg args 5\<rparr>)
     else if method = CHR ''c'' then
       bezierTo (p\<lparr>cp_x1 := js_add (cp_x p) (arg args 0),
                   cp_y1 := js_add (cp_y p) (arg args 1),
                   cp_x2 := js_add (cp_x p) (arg args 2),
                   cp_y2 := js_add (cp_y p) (arg args 3),
                   cp_x := js_add (cp_x p) (arg args 4),
                   cp_y := js_add (cp_y p) (arg args 5)\<rparr>)
     else if method = CHR ''S'' then
       (if smoothCondition p then
          bezierTo (p\<lparr>cp_x1 := js_add (js_sub (cp_x p) (cp_x2 p)) (cp_x p),
                      cp_y1 := js_add (js_sub (cp_y p) (cp_y2 p)) (cp_y p),
                      cp_x2 := arg args 0, cp_y2 := arg args 1,
                      cp_x := arg args 2, cp_y := arg args 3\<rparr>)
        else
          quadraticTo (p\<lparr>cp_x1 := arg args 0, cp_y1 := arg args 1,
                         cp_x := arg args 2, cp_y := arg args 3\<rparr>))
     else if method = CHR ''s'' then
       (if smoothCondition p then
          bezierTo (p\<lparr>cp_x1 := js_add (js_sub (cp_x p) (cp_x2 p)) (cp_x p),
                      cp_y1 := js_add (js_sub (cp_y p) (cp_y2 p)) (cp_y p),
                      cp_x2 := js_add (cp_x p) (arg args 0),
                      cp_y2 := js_add (cp_y p) (arg args 1),
                      cp_x := js_add (cp_x p) (arg args 2),
                      cp_y := js_add (cp_y p) (arg args 3)\<rparr>)
        else
          quadraticTo (p\<lparr>cp_x1 := js_add (cp_x p) (arg args 0),
                         cp_y1 := js_add (cp_y p) (arg args 1),
                         cp_x := js_add (cp_x p) (arg args 2),
                         cp_y := js_add (cp_y p) (arg args 3)\<rparr>))
     else if method = CHR ''Q'' then
       quadraticTo (p\<lparr>cp_x1 := arg args 0, cp_y1 := arg args 1,
                      cp_x := arg args 2, cp_y := arg args 3\<rparr>)
     else if method = CHR ''q'' then
       quadraticTo (p\<lparr>cp_x1 := js_add (cp_x p) (arg args 0),
                      cp_y1 := js_add (cp_y p) (arg args 1),
                      cp_x := js_add (cp_x p) (arg args 2),
                      cp_y := js_add (cp_y p) (arg args 3)\<rparr>)
     else if method = CHR ''A'' then (p, [])
     else if method = CHR ''a'' then (p, [])
     else if method = CHR ''Z'' \<or> method = CHR ''z'' then (p, [ClosePath])
     else (p, []))"

text \<open>
  The body of \<^verbatim>\<open>d.split('|||').forEach\<close> in \<^verbatim>\<open>drawBezier\<close>: an empty segment and
  a segment whose first character is not in \<^verbatim>\<open>validMethods\<close> are passed over; the
  arguments of the others are what follows the first character, trimmed and split at
  single spaces. The point is shared by the whole loop.
\<close>

fun drawSegments :: "currentPoint \<Rightarrow> string list \<Rightarrow> call list" where
  "drawSegments p [] = []"
| "drawSegments p (segment # segments) =
     (case segment of
        [] \<Rightarrow> drawSegments p segments
      | firstLetter # rest \<Rightarrow>
          if firstLetter \<in> set validMethods then
            (case drawBezierElement p firstLetter (split (trim rest) '' '') of
               (p', cs) \<Rightarrow> cs @ drawSegments p' segments)
          else drawSegments p segments)"

text \<open>
  The point that the same loop leaves behind: the in-place updates of
  \<^verbatim>\<open>currentPoint\<close>, without the calls.
\<close>

fun pointAfter :: "currentPoint \<Rightarrow> string list \<Rightarrow> currentPoint" where
  "pointAfter p [] = p"
| "pointAfter p (segment # segments) =
     (case segment of
        [] \<Rightarrow> pointAfter p segments
      | firstLetter # rest \<Rightarrow>
          if firstLetter \<in> set validMethods then
            pointAfter (fst (drawBezierElement p firstLetter (split (trim rest) '' '')))
              segments
          else pointAfter p segments)"

definition origin :: currentPoint where
  "origin = \<lparr>cp_x = Num 0, cp_y = Num 0, cp_x1 = Num 0, cp_y1 = Num 0,
             cp_x2 = Num 0, cp_y2 = Num 0\<rparr>"

definition tokenize :: "string \<Rightarrow> string list" where
  "tokenize d = split (replace_commas (replace_letters d)) ''|||''"

definition pathCalls :: "string \<Rightarrow> call list" where
  "pathCalls d = drawSegments origin (tokenize d)"

subsection \<open>The three shape painters\<close>

definition drawBezier :: "IBezierPath \<Rightarrow> call list" where
  "drawBezier obj =
     [Save] @ styleCalls (bp_styles obj) @ shapeTransform (bp_transform obj) @
     [BeginPath] @ pathCalls (bp_d obj) @ paint (bp_styles obj) @ [Restore]"

definition kappa :: jsnum where
  "kappa = Num (5522848 / 10000000)"

definition ellipseCalls :: "EllipsePath \<Rightarrow> call list" where
  "ellipseCalls obj =
     (let x = js_sub (ep_x obj) (ep_radiusX obj);
          y = js_sub (ep_y obj) (ep_radiusY obj);
          w = js_mul (ep_radiusX obj) (Num 2);
          h = js_mul (ep_radiusY obj) (Num 2);
          ox = js_mul (js_div w (Num 2)) kappa;
          oy = js_mul (js_div h (Num 2)) kappa;
          xe = js_add x w;
          ye = js_add y h;
          xm = js_add x (js_div w (Num 2));
          ym = js_add y (js_div h (Num 2))
      in [BeginPath,
          MoveTo x ym,
          BezierCurveTo x (js_sub ym oy) (js_sub xm ox) y xm y,
          BezierCurveTo (js_add xm ox) y xe (js_sub ym oy) xe ym,
          BezierCurveTo xe (js_add ym oy) (js_add xm ox) ye xm ye,
          BezierCurveTo (js_sub xm ox) ye x (js_add ym oy) x ym])"

definition drawEllipse :: "EllipsePath \<Rightarrow> call list" where
  "drawEllipse obj =
     [Save] @ styleCalls (ep_styles obj) @ shapeTransform (ep_transform obj) @
     ellipseCalls obj @ paint (ep_styles obj) @ [Restore]"

text \<open>
  The corner radius of \<^verbatim>\<open>drawRect\<close> after its two tests, first against the width and
  then against the height.
\<close>

definition rectRadius :: "jsnum \<Rightarrow> jsnum \<Rightarrow> jsnum \<Rightarrow> jsnum" where
  "rectRadius width height cornerRadius =
     (let radius = cornerRadius;
          radius = (if js_lt width (js_mul (Num 2) radius) then js_div width (Num 2)
                    else radius);
          radius = (if js_lt height (js_mul (Num 2) radius) then js_div height (Num 2)
                    else radius)
      in radius)"

definition rectCalls :: "RectPath \<Rightarrow> call list" where
  "rectCalls obj =
     (let x = rp_x obj;
          y = rp_y obj;
          width = rp_width obj;
          height = rp_height obj;
          radius = rectRadius width height (rp_cornerRadius obj)
      in [BeginPath,
          MoveTo (js_add x radius) y,
          ArcTo (js_add x width) y (js_add x width) (js_add y height) radius,
          ArcTo (js_add x width) (js_add y height) x (js_add y height) radius,
          ArcTo x (js_add y height) x y radius,
          ArcTo x y (js_add x width) y radius,
          ClosePath])"

definition drawRect :: "RectPath \<Rightarrow> call list" where
  "drawRect obj =
     [Save] @ styleCalls (rp_styles obj) @ shapeTransform (rp_transform obj) @
     rectCalls obj @ paint (rp_styles obj) @ [Restore]"

subsection \<open>render\<close>

text \<open>
  The body of \<^verbatim>\<open>frameItem.shapes.forEach\<close>. The classes \<^verbatim>\<open>EllipsePath\<close> and
  \<^verbatim>\<open>RectPath\<close> are declared in other modules; their constructors are taken to store
  each argument in the field that the painter reads under the same name.
\<close>

definition drawShape :: "ShapeEntity \<Rightarrow> call list" where
  "drawShape shape =
     (if sh_type shape = SHAPE \<and> sh_shape shape \<noteq> None
         \<and> str_truthy (case sh_shape shape of None \<Rightarrow> None | Some sa \<Rightarrow> sa_d sa)
      then
        (case sh_shape shape of
           None \<Rightarrow> []
         | Some sa \<Rightarrow>
             (case sa_d sa of
                None \<Rightarrow> []
              | Some d \<Rightarrow>
                  drawBezier \<lparr>bp_d = d, bp_transform = sh_transform shape,
                              bp_styles = sh_styles shape\<rparr>))
      else if sh_type shape = ELLIPSE \<and> sh_ellipse shape \<noteq> None then
        (case sh_ellipse shape of
           None \<Rightarrow> []
         | Some e \<Rightarrow>
             drawEllipse
               \<lparr>ep_x = num_or (ea_x e) (Num 0), ep_y = num_or (ea_y e) (Num 0),
                ep_radiusX = num_or (ea_radiusX e) (Num 0),
                ep_radiusY = num_or (ea_radiusY e) (Num 0),
                ep_transform = sh_transform shape, ep_styles = sh_styles shape\<rparr>)
      else if sh_type shape = RECT \<and> sh_rect shape \<noteq> None then
        (case sh_rect shape of
           None \<Rightarrow> []
         | Some r \<Rightarrow>
             drawRect
               \<lparr>rp_x = num_or (ra_x r) (Num 0), rp_y = num_or (ra_y r) (Num 0),
                rp_width = num_or (ra_width r) (Num 0),
                rp_height = num_or (ra_height r) (Num 0),
                rp_cornerRadius = num_or (ra_cornerRadius r) (Num 0),
                rp_transform = sh_transform shape, rp_styles = sh_styles shape\<rparr>)
      else [])"

text \<open>\<^verbatim>\<open>frameItem.shapes && frameItem.shapes.forEach(...)\<close>\<close>

definition drawShapes :: "ShapeEntity list option \<Rightarrow> call list" where
  "drawShapes shapes =
     (case shapes of None \<Rightarrow> [] | Some shs \<Rightarrow> concat (map drawShape shs))"

text \<open>
  \<^verbatim>\<open>sprite.imageKey && m[sprite.imageKey]\<close>: nothing when the key is absent or the
  empty string, else the entry of the key. The two maps hold entries of their own only.
\<close>

definition lookupKey :: "string option \<Rightarrow> (string \<rightharpoonup> 'v) \<Rightarrow> 'v option" where
  "lookupKey key m =
     (case key of None \<Rightarrow> None | Some k \<Rightarrow> if k = [] then None else m k)"

text \<open>The bitmap of the sprite: an optional clip, then the blit at the local origin.\<close>

definition clipCalls :: "string option \<Rightarrow> call list" where
  "clipCalls clipPath =
     (case clipPath of
        None \<Rightarrow> []
      | Some cp \<Rightarrow>
          if cp = [] then []
          else drawBezier \<lparr>bp_d = cp, bp_transform = None, bp_styles = None\<rparr> @ [Clip])"

definition bitmapCalls :: "source option \<Rightarrow> FrameEntity \<Rightarrow> call list" where
  "bitmapCalls img frameItem =
     (case img of
        None \<Rightarrow> []
      | Some i \<Rightarrow> clipCalls (f_clipPath frameItem) @ [DrawImage3 i (Num 0) (Num 0)])"

text \<open>The dimensions read from a drawable, by its kind.\<close>

fun sourceWidth :: "source \<Rightarrow> jsnum" where
  "sourceWidth (HTMLImageElement w h) = w"
| "sourceWidth (HTMLVideoElement w h) = w"
| "sourceWidth (SVGImageElement w h) = w"
| "sourceWidth (OtherSource w h) = w"

fun sourceHeight :: "source \<Rightarrow> jsnum" where
  "sourceHeight (HTMLImageElement w h) = h"
| "sourceHeight (HTMLVideoElement w h) = h"
| "sourceHeight (SVGImageElement w h) = h"
| "sourceHeight (OtherSource w h) = h"

text \<open>The \<^verbatim>\<open>switch (fit)\<close>; any string other than the first three is the default.\<close>

definition drawFitted :: "Layout \<Rightarrow> source \<Rightarrow> string \<Rightarrow> call" where
  "drawFitted layout src fit =
     (let sw = sourceWidth src; sh = sourceHeight src in
      if fit = ''contain'' then
        (let wRatio = js_div (l_width layout) sw;
             hRatio = js_div (l_height layout) sh;
             ratio = Math_min wRatio hRatio;
             width = js_mul ratio sw;
             height = js_mul ratio sh
         in DrawImage5 src (js_div (js_sub (l_width layout) width) (Num 2))
              (js_div (js_sub (l_height layout) height) (Num 2)) width height)
      else if fit = ''cover'' then
        (let wRatio = js_div (l_width layout) sw;
             hRatio = js_div (l_height layout) sh;
             ratio = Math_max wRatio hRatio;
             width = js_mul ratio sw;
             height = js_mul ratio sh
         in DrawImage5 src (js_div (js_sub (l_width layout) width) (Num 2))
              (js_div (js_sub (l_height layout) height) (Num 2)) width height)
      else if fit = ''fill'' then
        DrawImage5 src (Num 0) (Num 0) (l_width layout) (l_height layout)
      else
        DrawImage3 src (js_div (js_sub (l_width layout) sw) (Num 2))
          (js_div (js_sub (l_height layout) sh) (Num 2)))"

text \<open>
  \<^verbatim>\<open>const { source, fit } = 'fit' in dynamicElement ? dynamicElement :
  { source: dynamicElement, fit: 'none' }\<close>
\<close>

fun elementSource :: "DynamicElement \<Rightarrow> source" where
  "elementSource (Bare src) = src"
| "elementSource (WithFit src fit) = src"

fun elementFit :: "DynamicElement \<Rightarrow> string" where
  "elementFit (Bare src) = ''none''"
| "elementFit (WithFit src fit) = fit"

definition dynamicCalls :: "DynamicElement option \<Rightarrow> FrameEntity \<Rightarrow> call list" where
  "dynamicCalls dynamicElement frameItem =
     (case dynamicElement of
        None \<Rightarrow> []
      | Some de \<Rightarrow> [drawFitted (f_layout frameItem) (elementSource de) (elementFit de)])"

text \<open>
  The body of \<^verbatim>\<open>videoItem.sprites.forEach\<close> once the frame has been read. The literal
  \<^verbatim>\<open>0.05\<close> is the real number one twentieth.
\<close>

definition renderFrame ::
  "(string \<rightharpoonup> source) \<Rightarrow> (string \<rightharpoonup> DynamicElement) \<Rightarrow> SpriteEntity \<Rightarrow> FrameEntity
     \<Rightarrow> call list" where
  "renderFrame bitmapCache dynamicElements sprite frameItem =
     (if js_lt (f_alpha frameItem) (Num (5 / 100)) then []
      else
        [Save, SetGlobalAlpha (f_alpha frameItem), transformCall (f_transform frameItem)] @
        bitmapCalls (lookupKey (sp_imageKey sprite) bitmapCache) frameItem @
        dynamicCalls (lookupKey (sp_imageKey sprite) dynamicElements) frameItem @
        drawShapes (f_shapes frameItem) @
        [Restore])"

text \<open>
  \<^verbatim>\<open>sprite.frames[currentFrame]\<close> is \<^verbatim>\<open>undefined\<close> when the index is past the end, and
  reading \<^verbatim>\<open>.alpha\<close> of it throws a \<open>TypeError\<close>, which ends the loop over the sprites
  and leaves \<^verbatim>\<open>render\<close>. The calls issued before stay issued.
\<close>

datatype error = TypeError

fun renderSprites ::
  "(string \<rightharpoonup> source) \<Rightarrow> (string \<rightharpoonup> DynamicElement) \<Rightarrow> nat \<Rightarrow> SpriteEntity list
     \<Rightarrow> call list \<times> error option" where
  "renderSprites bitmapCache dynamicElements currentFrame [] = ([], None)"
| "renderSprites bitmapCache dynamicElements currentFrame (sprite # sprites) =
     (if currentFrame < length (sp_frames sprite) then
        (case renderSprites bitmapCache dynamicElements currentFrame sprites of
           (cs, e) \<Rightarrow>
             (renderFrame bitmapCache dynamicElements sprite
                (sp_frames sprite ! currentFrame) @ cs, e))
      else ([], Some TypeError))"

text \<open>
  A canvas, as far as \<^verbatim>\<open>render\<close> looks at it: whether \<^verbatim>\<open>getContext('2d')\<close> yields a
  context. The outcome of \<^verbatim>\<open>render\<close> is the value it returns (or the error it throws),
  the calls its context received, and the messages written with \<^verbatim>\<open>console.error\<close>.
\<close>

record canvas =
  c_offscreen :: bool
  c_has2d :: bool

record outcome =
  o_result :: "error + canvas"
  o_calls :: "call list"
  o_console :: "string list"

definition render ::
  "canvas \<Rightarrow> (string \<rightharpoonup> source) \<Rightarrow> (string \<rightharpoonup> DynamicElement) \<Rightarrow> VideoEntity \<Rightarrow> nat
     \<Rightarrow> outcome" where
  "render cv bitmapCache dynamicElements videoItem currentFrame =
     (if \<not> c_has2d cv then
        \<lparr>o_result = Inr cv, o_calls = [],
         o_console = [''svga render fail, 2d context null'']\<rparr>
      else
        (case renderSprites bitmapCache dynamicElements currentFrame (v_sprites videoItem) of
           (cs, None) \<Rightarrow> \<lparr>o_result = Inr cv, o_calls = cs, o_console = []\<rparr>
         | (cs, Some e) \<Rightarrow> \<lparr>o_result = Inl e, o_calls = cs, o_console = []\<rparr>))"

subsection \<open>Reading a list of calls\<close>

text \<open>Classifications of calls, used to state what a trace contains.\<close>

fun isPathCall :: "call \<Rightarrow> bool" where
  "isPathCall BeginPath = True"
| "isPathCall (MoveTo x y) = True"
| "isPathCall (LineTo x y) = True"
| "isPathCall (BezierCurveTo x1 y1 x2 y2 x y) = True"
| "isPathCall (QuadraticCurveTo x1 y1 x y) = True"
| "isPathCall (ArcTo x1 y1 x2 y2 r) = True"
| "isPathCall ClosePath = True"
| "isPathCall _ = False"

fun isStyleCall :: "call \<Rightarrow> bool" where
  "isStyleCall (SetStrokeStyle s) = True"
| "isStyleCall (SetLineWidth w) = True"
| "isStyleCall (SetLineCap s) = True"
| "isStyleCall (SetLineJoin s) = True"
| "isStyleCall (SetMiterLimit m) = True"
| "isStyleCall (SetFillStyle s) = True"
| "isStyleCall (SetLineDash ds) = True"
| "isStyleCall _ = False"

fun isPaint :: "call \<Rightarrow> bool" where
  "isPaint Fill = True"
| "isPaint Stroke = True"
| "isPaint _ = False"

fun isDrawImage :: "call \<Rightarrow> bool" where
  "isDrawImage (DrawImage3 src x y) = True"
| "isDrawImage (DrawImage5 src x y w h) = True"
| "isDrawImage _ = False"

text \<open>A transform call whose \<open>a\<close> or \<open>d\<close> component is the number zero.\<close>

fun zeroScale :: "call \<Rightarrow> bool" where
  "zeroScale (TransformBy a b c d tx ty) = (a = Num 0 \<or> d = Num 0)"
| "zeroScale _ = False"

text \<open>The radius arguments of the \<^verbatim>\<open>arcTo\<close> calls of a trace, in order.\<close>

fun arcRadii :: "call list \<Rightarrow> jsnum list" where
  "arcRadii [] = []"
| "arcRadii (ArcTo x1 y1 x2 y2 r # cs) = r # arcRadii cs"
| "arcRadii (c # cs) = arcRadii cs"

text \<open>Whether a style object is there and has a fill, or a stroke.\<close>

definition specifiesFill :: "IParseStyles option \<Rightarrow> bool" where
  "specifiesFill st = (case st of None \<Rightarrow> False | Some styles \<Rightarrow> st_fill styles \<noteq> None)"

definition specifiesStroke :: "IParseStyles option \<Rightarrow> bool" where
  "specifiesStroke st = (case st of None \<Rightarrow> False | Some styles \<Rightarrow> st_stroke styles \<noteq> None)"

fun isTransform :: "call \<Rightarrow> bool" where
  "isTransform (TransformBy a b c d tx ty) = True"
| "isTransform _ = False"

text \<open>The three tests of the dispatch in \<open>drawShape\<close>: whether a shape is painted at all.\<close>

definition isDrawn :: "ShapeEntity \<Rightarrow> bool" where
  "isDrawn shape =
     ((sh_type shape = SHAPE \<and>
         str_truthy (case sh_shape shape of None \<Rightarrow> None | Some sa \<Rightarrow> sa_d sa))
      \<or> (sh_type shape = ELLIPSE \<and> sh_ellipse shape \<noteq> None)
      \<or> (sh_type shape = RECT \<and> sh_rect shape \<noteq> None))"

text \<open>The four stored control coordinates of the interpreter's point.\<close>

definition controls :: "currentPoint \<Rightarrow> jsnum \<times> jsnum \<times> jsnum \<times> jsnum" where
  "controls p = (cp_x1 p, cp_y1 p, cp_x2 p, cp_y2 p)"

text \<open>The first character of a segment is one of the two cubic commands \<open>C\<close>, \<open>c\<close>.\<close>

definition startsCubic :: "string \<Rightarrow> bool" where
  "startsCubic segment = (take 1 segment = ''C'' \<or> take 1 segment = ''c'')"

subsection \<open>The clipping state of the context\<close>

text \<open>
  Modelled from the spec: the drawing surface is an external capability with scoped
  save/restore and clip. As far as clipping goes, its state is whether a clipping region
  set by \<^verbatim>\<open>clip\<close> is in force, and the stack of the states saved by \<^verbatim>\<open>save\<close>:
  \<^verbatim>\<open>save\<close> pushes the current state, \<^verbatim>\<open>restore\<close> pops it (and does nothing when
  the stack is empty), \<^verbatim>\<open>clip\<close> puts a clipping region in force, and no other call
  changes the state.
\<close>

fun stepClip :: "bool \<times> bool list \<Rightarrow> call \<Rightarrow> bool \<times> bool list" where
  "stepClip (clipped, saved) Save = (clipped, clipped # saved)"
| "stepClip (clipped, []) Restore = (clipped, [])"
| "stepClip (clipped, prev # saved) Restore = (prev, saved)"
| "stepClip (clipped, saved) Clip = (True, saved)"
| "stepClip (clipped, saved) _ = (clipped, saved)"

definition runClip :: "bool \<times> bool list \<Rightarrow> call list \<Rightarrow> bool \<times> bool list" where
  "runClip st cs = foldl stepClip st cs"

text \<open>
  The \<^verbatim>\<open>fill\<close> and \<^verbatim>\<open>stroke\<close> calls of a trace, each with the answer to: was a
  clipping region in force when the call was issued?
\<close>

fun paintedUnder :: "bool \<times> bool list \<Rightarrow> call list \<Rightarrow> (call \<times> bool) list" where
  "paintedUnder st [] = []"
| "paintedUnder st (c # cs) =
     (if isPaint c then [(c, fst st)] else []) @ paintedUnder (stepClip st c) cs"

fun isScopeCall :: "call \<Rightarrow> bool" where
  "isScopeCall Save = True"
| "isScopeCall Restore = True"
| "isScopeCall Clip = True"
| "isScopeCall _ = False"

section \<open>Properties\<close>

subsection \<open>What each part of a trace can contain\<close>

lemma filter_never: "list_all (\<lambda>c. \<not> P c) cs \<Longrightarrow> filter P cs = []"
  by (induction cs) auto

lemma list_all_weaken: "list_all P cs \<Longrightarrow> (\<And>c. P c \<Longrightarrow> Q c) \<Longrightarrow> list_all Q cs"
  by (induction cs) auto

lemma element_path_only: "list_all isPathCall (snd (drawBezierElement p m args))"
  by (simp add: drawBezierElement_def moveTo_def lineTo_def bezierTo_def quadraticTo_def)

lemma segments_path_only: "list_all isPathCall (drawSegments p segs)"
proof (induction segs arbitrary: p)
  case Nil
  show ?case by simp
next
  case (Cons seg segs)
  show ?case
  proof (cases seg)
    case Nil
    then show ?thesis using Cons.IH by simp
  next
    case (Cons ch rest)
    obtain p' cs where e: "drawBezierElement p ch (split (trim rest) '' '') = (p', cs)"
      by (cases "drawBezierElement p ch (split (trim rest) '' '')")
    have "list_all isPathCall cs"
      using element_path_only [of p ch "split (trim rest) '' ''"] e by simp
    then show ?thesis using Cons Cons.IH e by simp
  qed
qed

lemma pathCalls_path_only: "list_all isPathCall (pathCalls d)"
  by (simp add: pathCalls_def segments_path_only)

lemma ellipseCalls_path_only: "list_all isPathCall (ellipseCalls obj)"
  by (simp add: ellipseCalls_def Let_def)

lemma rectCalls_path_only: "list_all isPathCall (rectCalls obj)"
  by (simp add: rectCalls_def Let_def)

lemma styleCalls_style_only: "list_all isStyleCall (styleCalls st)"
  by (simp add: styleCalls_def resetShapeStyles_def split: option.splits)

text \<open>
  A property \<open>Q\<close> of calls that holds of every path call, every style call, every
  transform built by \<open>transformCall\<close>, and of \<open>Save\<close>, \<open>Restore\<close>, \<open>Fill\<close> and
  \<open>Stroke\<close>, holds of everything the shape painters issue.
\<close>

lemma all_painters:
  assumes path: "\<And>c. isPathCall c \<Longrightarrow> Q c"
    and style: "\<And>c. isStyleCall c \<Longrightarrow> Q c"
    and tr: "\<And>t. Q (transformCall t)"
    and rest: "Q Save" "Q Restore" "Q Fill" "Q Stroke"
  shows "list_all Q (drawBezier b)"
    and "list_all Q (drawEllipse e)"
    and "list_all Q (drawRect r)"
proof -
  have st: "list_all Q (styleCalls s)" for s
    by (rule list_all_weaken [OF styleCalls_style_only]) (rule style)
  have pa: "list_all isPathCall cs \<Longrightarrow> list_all Q cs" for cs
    by (erule list_all_weaken) (rule path)
  have tf: "list_all Q (shapeTransform x)" for x
    by (simp add: shapeTransform_def tr split: option.splits)
  have pt: "list_all Q (paint s)" for s
    by (simp add: paint_def rest split: option.splits)
  show "list_all Q (drawBezier b)"
    by (simp add: drawBezier_def st tf pt pa [OF pathCalls_path_only] rest path)
  show "list_all Q (drawEllipse e)"
    by (simp add: drawEllipse_def st tf pt pa [OF ellipseCalls_path_only] rest)
  show "list_all Q (drawRect r)"
    by (simp add: drawRect_def st tf pt pa [OF rectCalls_path_only] rest)
qed

lemma all_drawShape:
  assumes "\<And>c. isPathCall c \<Longrightarrow> Q c"
    and "\<And>c. isStyleCall c \<Longrightarrow> Q c"
    and "\<And>t. Q (transformCall t)"
    and "Q Save" "Q Restore" "Q Fill" "Q Stroke"
  shows "list_all Q (drawShape shape)"
proof -
  have b: "list_all Q (drawBezier b)" for b
    by (rule all_painters(1) [OF assms])
  have e: "list_all Q (drawEllipse e)" for e
    by (rule all_painters(2) [OF assms])
  have r: "list_all Q (drawRect r)" for r
    by (rule all_painters(3) [OF assms])
  show ?thesis
    by (simp add: drawShape_def b e r split: option.splits)
qed

lemma all_drawShapes:
  assumes "\<And>c. isPathCall c \<Longrightarrow> Q c"
    and "\<And>c. isStyleCall c \<Longrightarrow> Q c"
    and "\<And>t. Q (transformCall t)"
    and "Q Save" "Q Restore" "Q Fill" "Q Stroke"
  shows "list_all Q (drawShapes shapes)"
proof (cases shapes)
  case None
  then show ?thesis by (simp add: drawShapes_def)
next
  case (Some shs)
  have one: "list_all Q (drawShape sh)" for sh
    by (rule all_drawShape [OF assms])
  have "list_all Q (concat (map drawShape shs))"
    by (induction shs) (simp_all add: one)
  with Some show ?thesis by (simp add: drawShapes_def)
qed

lemma path_not_paint: "isPathCall c \<Longrightarrow> \<not> isPaint c"
  by (cases c) auto

lemma style_not_paint: "isStyleCall c \<Longrightarrow> \<not> isPaint c"
  by (cases c) auto

lemma path_not_drawImage: "isPathCall c \<Longrightarrow> \<not> isDrawImage c"
  by (cases c) auto

lemma style_not_drawImage: "isStyleCall c \<Longrightarrow> \<not> isDrawImage c"
  by (cases c) auto

lemma path_not_zeroScale: "isPathCall c \<Longrightarrow> \<not> zeroScale c"
  by (cases c) auto

lemma style_not_zeroScale: "isStyleCall c \<Longrightarrow> \<not> zeroScale c"
  by (cases c) auto

lemma no_paint_in_path: "list_all isPathCall cs \<Longrightarrow> filter isPaint cs = []"
  by (rule filter_never) (erule list_all_weaken, rule path_not_paint)

lemma no_paint_in_styles: "filter isPaint (styleCalls st) = []"
  by (rule filter_never) (rule list_all_weaken [OF styleCalls_style_only], rule style_not_paint)

lemma no_paint_in_transform: "filter isPaint (shapeTransform tr) = []"
  by (simp add: shapeTransform_def transformCall_def split: option.splits)

lemma paint_choice:
  "paint st = (if specifiesFill st then [Fill] else if specifiesStroke st then [Stroke] else [])"
  by (simp add: paint_def specifiesFill_def specifiesStroke_def split: option.splits)

lemma arcRadii_append: "arcRadii (xs @ ys) = arcRadii xs @ arcRadii ys"
  by (induction xs rule: arcRadii.induct) auto

lemma arcRadii_styles: "arcRadii (styleCalls st) = []"
  by (simp add: styleCalls_def resetShapeStyles_def split: option.splits)

lemma arcRadii_transform: "arcRadii (shapeTransform tr) = []"
  by (simp add: shapeTransform_def transformCall_def split: option.splits)

lemma arcRadii_paint: "arcRadii (paint st) = []"
  by (simp add: paint_def split: option.splits)

lemma arcRadii_rectCalls:
  "arcRadii (rectCalls obj) =
     replicate 4 (rectRadius (rp_width obj) (rp_height obj) (rp_cornerRadius obj))"
  by (simp add: rectCalls_def Let_def numeral_eq_Suc)

lemma rectRadius_Num:
  "rectRadius (Num w) (Num h) (Num r) =
     Num (if h < 2 * (if w < 2 * r then w / 2 else r) then h / 2
          else if w < 2 * r then w / 2 else r)"
  by (simp add: rectRadius_def)

lemma num_or_one_nonzero: "num_or x (Num 1) \<noteq> Num 0"
  by (cases x) auto

lemma transformCall_not_zeroScale: "\<not> zeroScale (transformCall t)"
  by (simp add: transformCall_def num_or_one_nonzero)

lemma zeroScale_shapes: "list_all (\<lambda>c. \<not> zeroScale c) (drawShapes shapes)"
  by (rule all_drawShapes)
     (simp_all add: path_not_zeroScale style_not_zeroScale transformCall_not_zeroScale)

lemma zeroScale_clip: "list_all (\<lambda>c. \<not> zeroScale c) (clipCalls cp)"
proof -
  have "list_all (\<lambda>c. \<not> zeroScale c) (drawBezier b)" for b
    by (rule all_painters(1))
       (simp_all add: path_not_zeroScale style_not_zeroScale transformCall_not_zeroScale)
  then show ?thesis
    by (simp add: clipCalls_def split: option.splits)
qed

lemma zeroScale_renderFrame: "list_all (\<lambda>c. \<not> zeroScale c) (renderFrame bc de sp fr)"
  by (simp add: renderFrame_def bitmapCalls_def dynamicCalls_def drawFitted_def Let_def
      zeroScale_shapes zeroScale_clip transformCall_not_zeroScale split: option.splits)

lemma zeroScale_renderSprites:
  "list_all (\<lambda>c. \<not> zeroScale c) (fst (renderSprites bc de f sprites))"
  by (induction sprites) (auto simp: zeroScale_renderFrame split: prod.splits)

lemma drawImage_shapes: "filter isDrawImage (drawShapes shapes) = []"
  by (rule filter_never, rule all_drawShapes)
     (simp_all add: path_not_drawImage style_not_drawImage transformCall_def)

lemma drawImage_clip: "filter isDrawImage (clipCalls cp) = []"
proof -
  have "list_all (\<lambda>c. \<not> isDrawImage c) (drawBezier b)" for b
    by (rule all_painters(1))
       (simp_all add: path_not_drawImage style_not_drawImage transformCall_def)
  then have "list_all (\<lambda>c. \<not> isDrawImage c) (clipCalls cp)"
    by (simp add: clipCalls_def split: option.splits)
  then show ?thesis by (rule filter_never)
qed

lemma isDrawImage_drawFitted: "isDrawImage (drawFitted layout src fit)"
  by (simp add: drawFitted_def Let_def)

lemma min_max_Num:
  "Math_min (Num u) (Num v) = Num (min u v)" "Math_max (Num u) (Num v) = Num (max u v)"
  by (auto simp: min_def max_def)

lemma renderSprites_concat:
  "fst (renderSprites bc de f sprites) =
     concat (map (\<lambda>sp. renderFrame bc de sp (sp_frames sp ! f))
       (takeWhile (\<lambda>sp. f < length (sp_frames sp)) sprites))"
  by (induction sprites) (auto split: prod.splits)

lemma renderFrame_skip:
  "renderFrame bc de sp fr =
     (if js_lt (f_alpha fr) (Num (5 / 100)) then [] else renderFrame bc de sp fr)"
  by (simp add: renderFrame_def)

lemma render_calls:
  "c_has2d cv \<Longrightarrow>
     o_calls (render cv bc de v f) = fst (renderSprites bc de f (v_sprites v))"
  by (auto simp: render_def split: prod.splits option.splits)

subsection \<open>The clipping state along a trace\<close>

lemma stepClip_neutral: "\<not> isScopeCall c \<Longrightarrow> stepClip st c = st"
  by (cases st; cases c) auto

lemma runClip_Nil: "runClip st [] = st"
  by (simp add: runClip_def)

lemma runClip_append: "runClip st (xs @ ys) = runClip (runClip st xs) ys"
  by (simp add: runClip_def)

lemma runClip_neutral: "list_all (\<lambda>c. \<not> isScopeCall c) cs \<Longrightarrow> runClip st cs = st"
  by (induction cs) (simp_all add: runClip_def stepClip_neutral)

lemma paintedUnder_append:
  "paintedUnder st (xs @ ys) = paintedUnder st xs @ paintedUnder (runClip st xs) ys"
  by (induction xs arbitrary: st) (simp_all add: runClip_def)

lemma paintedUnder_neutral:
  "list_all (\<lambda>c. \<not> isScopeCall c) cs \<Longrightarrow>
     paintedUnder st cs = map (\<lambda>c. (c, fst st)) (filter isPaint cs)"
  by (induction cs) (simp_all add: stepClip_neutral)

lemma path_not_scope: "isPathCall c \<Longrightarrow> \<not> isScopeCall c"
  by (cases c) auto

lemma style_not_scope: "isStyleCall c \<Longrightarrow> \<not> isScopeCall c"
  by (cases c) auto

text \<open>A block between save and restore whose inside has no save, restore or clip.\<close>

lemma scoped_block:
  assumes "list_all (\<lambda>c. \<not> isScopeCall c) body"
  shows "runClip st ([Save] @ body @ [Restore]) = st"
    and "paintedUnder st ([Save] @ body @ [Restore]) =
           map (\<lambda>c. (c, fst st)) (filter isPaint ([Save] @ body @ [Restore]))"
proof -
  obtain c stk where st: "st = (c, stk)" by (cases st)
  have r: "runClip (c, c # stk) body = (c, c # stk)"
    using assms by (rule runClip_neutral)
  show "runClip st ([Save] @ body @ [Restore]) = st"
    using r by (simp add: st runClip_def)
  have "paintedUnder (c, c # stk) body = map (\<lambda>x. (x, c)) (filter isPaint body)"
    using paintedUnder_neutral [OF assms, of "(c, c # stk)"] by simp
  then show "paintedUnder st ([Save] @ body @ [Restore]) =
           map (\<lambda>c. (c, fst st)) (filter isPaint ([Save] @ body @ [Restore]))"
    using r by (simp add: st paintedUnder_append)
qed

lemma painter_bodies:
  "list_all (\<lambda>c. \<not> isScopeCall c)
     (styleCalls st @ shapeTransform tr @ [BeginPath] @ pathCalls d @ paint st)"
  "list_all (\<lambda>c. \<not> isScopeCall c)
     (styleCalls st @ shapeTransform tr @ ellipseCalls e @ paint st)"
  "list_all (\<lambda>c. \<not> isScopeCall c)
     (styleCalls st @ shapeTransform tr @ rectCalls r @ paint st)"
proof -
  have s: "list_all (\<lambda>c. \<not> isScopeCall c) (styleCalls st)"
    by (rule list_all_weaken [OF styleCalls_style_only]) (rule style_not_scope)
  have t: "list_all (\<lambda>c. \<not> isScopeCall c) (shapeTransform tr)"
    by (simp add: shapeTransform_def transformCall_def split: option.splits)
  have p: "list_all (\<lambda>c. \<not> isScopeCall c) (paint st)"
    by (simp add: paint_def split: option.splits)
  have pa: "list_all isPathCall cs \<Longrightarrow> list_all (\<lambda>c. \<not> isScopeCall c) cs" for cs
    by (erule list_all_weaken) (rule path_not_scope)
  show "list_all (\<lambda>c. \<not> isScopeCall c)
     (styleCalls st @ shapeTransform tr @ [BeginPath] @ pathCalls d @ paint st)"
    by (simp add: s t p pa [OF pathCalls_path_only])
  show "list_all (\<lambda>c. \<not> isScopeCall c)
     (styleCalls st @ shapeTransform tr @ ellipseCalls e @ paint st)"
    by (simp add: s t p pa [OF ellipseCalls_path_only])
  show "list_all (\<lambda>c. \<not> isScopeCall c)
     (styleCalls st @ shapeTransform tr @ rectCalls r @ paint st)"
    by (simp add: s t p pa [OF rectCalls_path_only])
qed

lemma painters_scoped:
  "runClip st (drawBezier b) = st"
  "paintedUnder st (drawBezier b) = map (\<lambda>c. (c, fst st)) (filter isPaint (drawBezier b))"
  "runClip st (drawEllipse e) = st"
  "paintedUnder st (drawEllipse e) = map (\<lambda>c. (c, fst st)) (filter isPaint (drawEllipse e))"
  "runClip st (drawRect r) = st"
  "paintedUnder st (drawRect r) = map (\<lambda>c. (c, fst st)) (filter isPaint (drawRect r))"
  using scoped_block [OF painter_bodies(1), of st "bp_styles b" "bp_transform b" "bp_d b"]
        scoped_block [OF painter_bodies(2), of st "ep_styles e" "ep_transform e" e]
        scoped_block [OF painter_bodies(3), of st "rp_styles r" "rp_transform r" r]
  by (simp_all add: drawBezier_def drawEllipse_def drawRect_def)

lemma drawShape_cases:
  "(\<not> isDrawn sh \<and> drawShape sh = [])
   \<or> (isDrawn sh \<and>
       ((\<exists>b. drawShape sh = drawBezier b \<and> bp_transform b = sh_transform sh)
        \<or> (\<exists>e. drawShape sh = drawEllipse e \<and> ep_transform e = sh_transform sh)
        \<or> (\<exists>r. drawShape sh = drawRect r \<and> rp_transform r = sh_transform sh)))"
  by (cases "sh_type sh"; cases "sh_shape sh"; cases "sh_ellipse sh"; cases "sh_rect sh")
     (auto simp: drawShape_def isDrawn_def split: option.splits)

lemma drawShape_scoped:
  "runClip st (drawShape sh) = st"
  "paintedUnder st (drawShape sh) = map (\<lambda>c. (c, fst st)) (filter isPaint (drawShape sh))"
  using drawShape_cases [of sh] by (auto simp: painters_scoped runClip_Nil)

lemma drawShapes_scoped:
  "runClip st (drawShapes shapes) = st"
  "paintedUnder st (drawShapes shapes) =
     map (\<lambda>c. (c, fst st)) (filter isPaint (drawShapes shapes))"
proof -
  have "runClip st (concat (map drawShape shs)) = st
      \<and> paintedUnder st (concat (map drawShape shs)) =
          map (\<lambda>c. (c, fst st)) (filter isPaint (concat (map drawShape shs)))" for shs
    by (induction shs)
       (simp_all add: runClip_Nil runClip_append paintedUnder_append drawShape_scoped)
  then show "runClip st (drawShapes shapes) = st"
    "paintedUnder st (drawShapes shapes) =
     map (\<lambda>c. (c, fst st)) (filter isPaint (drawShapes shapes))"
    by (simp_all add: drawShapes_def runClip_Nil split: option.splits)
qed

lemma clip_painter_unstyled:
  "filter isPaint (drawBezier \<lparr>bp_d = cp, bp_transform = None, bp_styles = None\<rparr>) = []"
  by (simp add: drawBezier_def styleCalls_def shapeTransform_def paint_def
      no_paint_in_path [OF pathCalls_path_only])

lemma dynamicCalls_neutral: "list_all (\<lambda>c. \<not> isScopeCall c) (dynamicCalls x fr)"
  by (simp add: dynamicCalls_def drawFitted_def Let_def split: option.splits)

lemma dynamicCalls_no_paint: "filter isPaint (dynamicCalls x fr) = []"
  by (simp add: dynamicCalls_def drawFitted_def Let_def split: option.splits)

lemma dynamicCalls_layout_only:
  "dynamicCalls x (fr\<lparr>f_clipPath := c\<rparr>) = dynamicCalls x fr"
  by (simp add: dynamicCalls_def cong: option.case_cong)


subsection \<open>The transforms of a trace\<close>

lemma path_not_transform: "isPathCall c \<Longrightarrow> \<not> isTransform c"
  by (cases c) auto

lemma style_not_transform: "isStyleCall c \<Longrightarrow> \<not> isTransform c"
  by (cases c) auto

lemma no_transform_in_path: "list_all isPathCall cs \<Longrightarrow> filter isTransform cs = []"
  by (rule filter_never) (erule list_all_weaken, rule path_not_transform)

lemma no_transform_in_styles: "filter isTransform (styleCalls st) = []"
  by (rule filter_never)
     (rule list_all_weaken [OF styleCalls_style_only], rule style_not_transform)

lemma no_transform_in_paint: "filter isTransform (paint st) = []"
  by (simp add: paint_def split: option.splits)

lemma transforms_shapeTransform: "filter isTransform (shapeTransform tr) = shapeTransform tr"
  by (simp add: shapeTransform_def transformCall_def split: option.splits)

lemma transforms_painters:
  "filter isTransform (drawBezier b) = shapeTransform (bp_transform b)"
  "filter isTransform (drawEllipse e) = shapeTransform (ep_transform e)"
  "filter isTransform (drawRect r) = shapeTransform (rp_transform r)"
  by (simp_all add: drawBezier_def drawEllipse_def drawRect_def no_transform_in_styles
      no_transform_in_paint transforms_shapeTransform
      no_transform_in_path [OF pathCalls_path_only]
      no_transform_in_path [OF ellipseCalls_path_only]
      no_transform_in_path [OF rectCalls_path_only])

lemma transforms_drawShape:
  "filter isTransform (drawShape sh) =
     (if isDrawn sh then shapeTransform (sh_transform sh) else [])"
  using drawShape_cases [of sh] by (auto simp: transforms_painters)

lemma transforms_drawShapes:
  "filter isTransform (drawShapes shapes) =
     concat (map (\<lambda>sh. if isDrawn sh then shapeTransform (sh_transform sh) else [])
       (case shapes of None \<Rightarrow> [] | Some shs \<Rightarrow> shs))"
proof (cases shapes)
  case None
  then show ?thesis by (simp add: drawShapes_def)
next
  case (Some shs)
  have "filter isTransform (concat (map drawShape shs)) =
      concat (map (\<lambda>sh. if isDrawn sh then shapeTransform (sh_transform sh) else []) shs)"
    by (induction shs) (simp_all add: transforms_drawShape)
  with Some show ?thesis by (simp add: drawShapes_def)
qed

lemma no_transform_in_clip: "filter isTransform (clipCalls cp) = []"
  by (simp add: clipCalls_def transforms_painters shapeTransform_def split: option.splits)

lemma no_transform_in_bitmap: "filter isTransform (bitmapCalls img fr) = []"
  by (simp add: bitmapCalls_def no_transform_in_clip split: option.splits)

lemma no_transform_in_dynamic: "filter isTransform (dynamicCalls x fr) = []"
  by (simp add: dynamicCalls_def drawFitted_def Let_def split: option.splits)

lemma transforms_renderFrame:
  "filter isTransform (renderFrame bc de sp fr) =
     (if js_lt (f_alpha fr) (Num (5 / 100)) then []
      else transformCall (f_transform fr) # filter isTransform (drawShapes (f_shapes fr)))"
  by (simp add: renderFrame_def no_transform_in_bitmap no_transform_in_dynamic)
     (simp add: transformCall_def)

lemma filter_concat_map: "filter P (concat (map g xs)) = concat (map (\<lambda>x. filter P (g x)) xs)"
  by (induction xs) simp_all

lemma num_or_one_cases:
  "num_or x (Num 1) =
     (case x of None \<Rightarrow> Num 1 | Some v \<Rightarrow> if v = Num 0 \<or> v = NaN then Num 1 else v)"
  by (cases x; cases "the x") auto

lemma num_or_zero_cases:
  "num_or x (Num 0) =
     (case x of None \<Rightarrow> Num 0 | Some v \<Rightarrow> if v = NaN then Num 0 else v)"
  by (cases x; cases "the x") auto


subsection \<open>The point along a path\<close>

lemma drawSegments_append:
  "drawSegments p (pre @ post) = drawSegments p pre @ drawSegments (pointAfter p pre) post"
  by (induction pre arbitrary: p) (auto split: list.splits prod.splits)

lemma controls_written:
  "controls (fst (drawBezierElement p m args)) =
     (if m = CHR ''C'' then (arg args 0, arg args 1, arg args 2, arg args 3)
      else if m = CHR ''c'' then
        (js_add (cp_x p) (arg args 0), js_add (cp_y p) (arg args 1),
         js_add (cp_x p) (arg args 2), js_add (cp_y p) (arg args 3))
      else if m = CHR ''S'' then
        (if js_truthy (cp_x1 p) \<and> js_truthy (cp_y1 p) \<and> js_truthy (cp_x2 p) \<and> js_truthy (cp_y2 p)
         then (js_add (js_sub (cp_x p) (cp_x2 p)) (cp_x p),
               js_add (js_sub (cp_y p) (cp_y2 p)) (cp_y p), arg args 0, arg args 1)
         else (arg args 0, arg args 1, cp_x2 p, cp_y2 p))
      else if m = CHR ''s'' then
        (if js_truthy (cp_x1 p) \<and> js_truthy (cp_y1 p) \<and> js_truthy (cp_x2 p) \<and> js_truthy (cp_y2 p)
         then (js_add (js_sub (cp_x p) (cp_x2 p)) (cp_x p),
               js_add (js_sub (cp_y p) (cp_y2 p)) (cp_y p),
               js_add (cp_x p) (arg args 0), js_add (cp_y p) (arg args 1))
         else (js_add (cp_x p) (arg args 0), js_add (cp_y p) (arg args 1), cp_x2 p, cp_y2 p))
      else if m = CHR ''Q'' then (arg args 0, arg args 1, cp_x2 p, cp_y2 p)
      else if m = CHR ''q'' then
        (js_add (cp_x p) (arg args 0), js_add (cp_y p) (arg args 1), cp_x2 p, cp_y2 p)
      else controls p)"
  by (simp add: controls_def drawBezierElement_def smoothCondition_def moveTo_def lineTo_def
      bezierTo_def quadraticTo_def)

lemma second_control_kept:
  assumes "cp_x2 p = Num 0" and "cp_y2 p = Num 0"
    and "m \<noteq> CHR ''C''" and "m \<noteq> CHR ''c''"
  shows "cp_x2 (fst (drawBezierElement p m args)) = Num 0
       \<and> cp_y2 (fst (drawBezierElement p m args)) = Num 0"
  using assms controls_written [of p m args] by (simp add: controls_def split: if_splits)

lemma second_control_zero:
  assumes "list_all (\<lambda>seg. \<not> startsCubic seg) pre"
    and "cp_x2 p = Num 0" and "cp_y2 p = Num 0"
  shows "cp_x2 (pointAfter p pre) = Num 0 \<and> cp_y2 (pointAfter p pre) = Num 0"
  using assms
proof (induction pre arbitrary: p)
  case Nil
  then show ?case by simp
next
  case (Cons seg pre)
  show ?case
  proof (cases seg)
    case Nil
    then show ?thesis using Cons by simp
  next
    case (Cons fl rest)
    have nc: "fl \<noteq> CHR ''C''" "fl \<noteq> CHR ''c''"
      using Cons.prems(1) Cons by (auto simp: startsCubic_def)
    have "cp_x2 (fst (drawBezierElement p fl (split (trim rest) '' ''))) = Num 0
        \<and> cp_y2 (fst (drawBezierElement p fl (split (trim rest) '' ''))) = Num 0"
      using second_control_kept [OF Cons.prems(2,3) nc] .
    then show ?thesis
      using Cons Cons.IH Cons.prems by simp
  qed
qed

subsection \<open>The claims\<close>

text \<open>
  C9. When the canvas yields no 2D context, \<^verbatim>\<open>render\<close> issues no call, throws nothing
  and returns the canvas it was given; the one effect is the message written with
  \<^verbatim>\<open>console.error\<close>.
\<close>

theorem no_context_is_logged_noop:
  assumes "\<not> c_has2d cv"
  shows "render cv bitmapCache dynamicElements videoItem currentFrame =
           \<lparr>o_result = Inr cv, o_calls = [],
            o_console = [''svga render fail, 2d context null'']\<rparr>"
  using assms by (simp add: render_def)

theorem no_context_is_logged_noop_witness:
  "\<not> c_has2d \<lparr>c_offscreen = True, c_has2d = False\<rparr>
   \<and> render \<lparr>c_offscreen = True, c_has2d = False\<rparr> Map.empty Map.empty
        \<lparr>v_sprites = [\<lparr>sp_imageKey = None, sp_frames = []\<rparr>]\<rparr> 0 =
       \<lparr>o_result = Inr \<lparr>c_offscreen = True, c_has2d = False\<rparr>, o_calls = [],
        o_console = [''svga render fail, 2d context null'']\<rparr>"
  using no_context_is_logged_noop
          [of "\<lparr>c_offscreen = True, c_has2d = False\<rparr>" Map.empty Map.empty
              "\<lparr>v_sprites = [\<lparr>sp_imageKey = None, sp_frames = []\<rparr>]\<rparr>" 0]
  by simp

text \<open>
  C4. For a rect shape with non-negative width \<open>w\<close> and height \<open>h\<close>, the four
  \<^verbatim>\<open>arcTo\<close> calls of \<^verbatim>\<open>drawRect\<close> carry one radius \<open>r'\<close> with
  \<open>2 * r' \<le> min w h\<close>, and \<open>r'\<close> is exactly \<open>min w h / 2\<close> whenever the declared
  corner radius is larger than that.
\<close>

theorem rect_radius_clamped:
  assumes "rp_width obj = Num w" and "rp_height obj = Num h"
    and "rp_cornerRadius obj = Num r" and "0 \<le> w" and "0 \<le> h"
  shows "\<exists>r'. arcRadii (drawRect obj) = [Num r', Num r', Num r', Num r']
              \<and> 2 * r' \<le> min w h
              \<and> (min w h / 2 < r \<longrightarrow> r' = min w h / 2)"
proof -
  define r' where "r' = (if h < 2 * (if w < 2 * r then w / 2 else r) then h / 2
          else if w < 2 * r then w / 2 else r)"
  have "arcRadii (drawRect obj) = replicate 4 (Num r')"
    using assms(1-3)
    by (simp add: drawRect_def arcRadii_append arcRadii_styles arcRadii_transform
        arcRadii_paint arcRadii_rectCalls rectRadius_Num r'_def
        del: replicate.simps replicate_Suc)
  then have "arcRadii (drawRect obj) = [Num r', Num r', Num r', Num r']"
    by (simp add: numeral_eq_Suc)
  moreover have "2 * r' \<le> min w h"
    unfolding r'_def by (auto simp: min_def)
  moreover have "min w h / 2 < r \<longrightarrow> r' = min w h / 2"
    unfolding r'_def by (auto simp: min_def)
  ultimately show ?thesis by blast
qed

theorem rect_radius_clamped_witness:
  "arcRadii (drawRect \<lparr>rp_x = Num 0, rp_y = Num 0, rp_width = Num 10, rp_height = Num 6,
       rp_cornerRadius = Num 8, rp_transform = None, rp_styles = None\<rparr>) =
     [Num 3, Num 3, Num 3, Num 3]"
  using rect_radius_clamped
          [of "\<lparr>rp_x = Num 0, rp_y = Num 0, rp_width = Num 10, rp_height = Num 6,
                rp_cornerRadius = Num 8, rp_transform = None, rp_styles = None\<rparr>" 10 6 8]
  by auto

text \<open>
  C7. Each of the three painters ends with the paint step and the closing
  \<^verbatim>\<open>restore\<close>: \<^verbatim>\<open>fill\<close> when the style has a fill (also when it has a stroke as
  well), else \<^verbatim>\<open>stroke\<close> when the style has a stroke, else nothing; what comes before
  (styles, transform, path construction) contains no \<^verbatim>\<open>fill\<close> and no \<^verbatim>\<open>stroke\<close>.
  So at most one of the two is applied, after the path has been built.
\<close>

theorem paint_after_path:
  "(\<exists>pre. drawBezier b =
            pre @ (if specifiesFill (bp_styles b) then [Fill]
                   else if specifiesStroke (bp_styles b) then [Stroke] else []) @ [Restore]
          \<and> filter isPaint pre = [])
   \<and> (\<exists>pre. drawEllipse e =
            pre @ (if specifiesFill (ep_styles e) then [Fill]
                   else if specifiesStroke (ep_styles e) then [Stroke] else []) @ [Restore]
          \<and> filter isPaint pre = [])
   \<and> (\<exists>pre. drawRect r =
            pre @ (if specifiesFill (rp_styles r) then [Fill]
                   else if specifiesStroke (rp_styles r) then [Stroke] else []) @ [Restore]
          \<and> filter isPaint pre = [])"
proof (intro conjI)
  let ?pb = "[Save] @ styleCalls (bp_styles b) @ shapeTransform (bp_transform b) @
             [BeginPath] @ pathCalls (bp_d b)"
  have "drawBezier b = ?pb @ paint (bp_styles b) @ [Restore]"
    by (simp add: drawBezier_def)
  moreover have "filter isPaint ?pb = []"
    by (simp add: no_paint_in_styles no_paint_in_transform
        no_paint_in_path [OF pathCalls_path_only])
  ultimately show "\<exists>pre. drawBezier b =
            pre @ (if specifiesFill (bp_styles b) then [Fill]
                   else if specifiesStroke (bp_styles b) then [Stroke] else []) @ [Restore]
          \<and> filter isPaint pre = []"
    unfolding paint_choice by blast
next
  let ?pe = "[Save] @ styleCalls (ep_styles e) @ shapeTransform (ep_transform e) @
             ellipseCalls e"
  have "drawEllipse e = ?pe @ paint (ep_styles e) @ [Restore]"
    by (simp add: drawEllipse_def)
  moreover have "filter isPaint ?pe = []"
    by (simp add: no_paint_in_styles no_paint_in_transform
        no_paint_in_path [OF ellipseCalls_path_only])
  ultimately show "\<exists>pre. drawEllipse e =
            pre @ (if specifiesFill (ep_styles e) then [Fill]
                   else if specifiesStroke (ep_styles e) then [Stroke] else []) @ [Restore]
          \<and> filter isPaint pre = []"
    unfolding paint_choice by blast
next
  let ?pr = "[Save] @ styleCalls (rp_styles r) @ shapeTransform (rp_transform r) @
             rectCalls r"
  have "drawRect r = ?pr @ paint (rp_styles r) @ [Restore]"
    by (simp add: drawRect_def)
  moreover have "filter isPaint ?pr = []"
    by (simp add: no_paint_in_styles no_paint_in_transform
        no_paint_in_path [OF rectCalls_path_only])
  ultimately show "\<exists>pre. drawRect r =
            pre @ (if specifiesFill (rp_styles r) then [Fill]
                   else if specifiesStroke (rp_styles r) then [Stroke] else []) @ [Restore]
          \<and> filter isPaint pre = []"
    unfolding paint_choice by blast
qed

theorem paint_after_path_witness:
  "filter isPaint
     (drawRect \<lparr>rp_x = Num 0, rp_y = Num 0, rp_width = Num 10, rp_height = Num 6,
        rp_cornerRadius = Num 1, rp_transform = None,
        rp_styles = Some \<lparr>st_fill = Some [1, 0, 0, 1], st_stroke = Some [0, 0, 0, 1],
          st_fillStr = Some ''red'', st_strokeStr = Some ''black'',
          st_strokeWidth = Some (Num 2), st_lineCapStr = None, st_lineJoinStr = None,
          st_miterLimit = None, st_lineDashI = None, st_lineDashII = None,
          st_lineDashIII = None\<rparr>\<rparr>) = [Fill]
   \<and> filter isPaint
     (drawBezier \<lparr>bp_d = ''M0 0 L10 0 L10 10 Z'', bp_transform = None,
        bp_styles = Some \<lparr>st_fill = None, st_stroke = Some [0, 0, 0, 1],
          st_fillStr = None, st_strokeStr = Some ''black'',
          st_strokeWidth = Some (Num 2), st_lineCapStr = None, st_lineJoinStr = None,
          st_miterLimit = None, st_lineDashI = None, st_lineDashII = None,
          st_lineDashIII = None\<rparr>\<rparr>) = [Stroke]
   \<and> filter isPaint
     (drawEllipse \<lparr>ep_x = Num 5, ep_y = Num 5, ep_radiusX = Num 2, ep_radiusY = Num 3,
        ep_transform = None, ep_styles = None\<rparr>) = []"
  using paint_after_path
    [of "\<lparr>bp_d = ''M0 0 L10 0 L10 10 Z'', bp_transform = None,
        bp_styles = Some \<lparr>st_fill = None, st_stroke = Some [0, 0, 0, 1],
          st_fillStr = None, st_strokeStr = Some ''black'',
          st_strokeWidth = Some (Num 2), st_lineCapStr = None, st_lineJoinStr = None,
          st_miterLimit = None, st_lineDashI = None, st_lineDashII = None,
          st_lineDashIII = None\<rparr>\<rparr>"
        "\<lparr>ep_x = Num 5, ep_y = Num 5, ep_radiusX = Num 2, ep_radiusY = Num 3,
        ep_transform = None, ep_styles = None\<rparr>"
        "\<lparr>rp_x = Num 0, rp_y = Num 0, rp_width = Num 10, rp_height = Num 6,
        rp_cornerRadius = Num 1, rp_transform = None,
        rp_styles = Some \<lparr>st_fill = Some [1, 0, 0, 1], st_stroke = Some [0, 0, 0, 1],
          st_fillStr = Some ''red'', st_strokeStr = Some ''black'',
          st_strokeWidth = Some (Num 2), st_lineCapStr = None, st_lineJoinStr = None,
          st_miterLimit = None, st_lineDashI = None, st_lineDashII = None,
          st_lineDashIII = None\<rparr>\<rparr>"]
  by (auto simp: specifiesFill_def specifiesStroke_def)

text \<open>
  C10. With a 2D context, the transform calls that \<^verbatim>\<open>render\<close> issues are exactly:
  for each sprite that is drawn, in list order, the transform of its frame and then the
  transform of each painted shape that has one, in list order. Each is applied with its
  \<open>a\<close> and \<open>d\<close> replaced by \<open>1\<close> when the component is absent, zero or \<open>NaN\<close>,
  and with \<open>b\<close>, \<open>c\<close>, \<open>tx\<close>, \<open>ty\<close> replaced by \<open>0\<close> when absent or \<open>NaN\<close>. So
  a frame or shape transform with \<open>a = 0\<close> or \<open>d = 0\<close> reaches the context with that
  component equal to one, and no transform call of the trace has a zero \<open>a\<close> or \<open>d\<close>.
\<close>

theorem zero_scale_replaced:
  assumes "c_has2d cv"
  shows
    "(let applied = (\<lambda>t. TransformBy
          (case t_a t of None \<Rightarrow> Num 1
           | Some v \<Rightarrow> if v = Num 0 \<or> v = NaN then Num 1 else v)
          (case t_b t of None \<Rightarrow> Num 0 | Some v \<Rightarrow> if v = NaN then Num 0 else v)
          (case t_c t of None \<Rightarrow> Num 0 | Some v \<Rightarrow> if v = NaN then Num 0 else v)
          (case t_d t of None \<Rightarrow> Num 1
           | Some v \<Rightarrow> if v = Num 0 \<or> v = NaN then Num 1 else v)
          (case t_tx t of None \<Rightarrow> Num 0 | Some v \<Rightarrow> if v = NaN then Num 0 else v)
          (case t_ty t of None \<Rightarrow> Num 0 | Some v \<Rightarrow> if v = NaN then Num 0 else v))
      in filter isTransform (o_calls (render cv bc de v f)) =
           concat (map
             (\<lambda>sp. if js_lt (f_alpha (sp_frames sp ! f)) (Num (5 / 100)) then []
                    else applied (f_transform (sp_frames sp ! f)) #
                      concat (map
                        (\<lambda>sh. if isDrawn sh
                               then (case sh_transform sh of None \<Rightarrow> []
                                     | Some t \<Rightarrow> [applied t])
                               else [])
                        (case f_shapes (sp_frames sp ! f) of None \<Rightarrow> []
                         | Some shs \<Rightarrow> shs)))
             (takeWhile (\<lambda>sp. f < length (sp_frames sp)) (v_sprites v))))
     \<and> filter zeroScale (o_calls (render cv bc de v f)) = []"
proof
  have tc: "transformCall t = TransformBy
          (case t_a t of None \<Rightarrow> Num 1
           | Some v \<Rightarrow> if v = Num 0 \<or> v = NaN then Num 1 else v)
          (case t_b t of None \<Rightarrow> Num 0 | Some v \<Rightarrow> if v = NaN then Num 0 else v)
          (case t_c t of None \<Rightarrow> Num 0 | Some v \<Rightarrow> if v = NaN then Num 0 else v)
          (case t_d t of None \<Rightarrow> Num 1
           | Some v \<Rightarrow> if v = Num 0 \<or> v = NaN then Num 1 else v)
          (case t_tx t of None \<Rightarrow> Num 0 | Some v \<Rightarrow> if v = NaN then Num 0 else v)
          (case t_ty t of None \<Rightarrow> Num 0 | Some v \<Rightarrow> if v = NaN then Num 0 else v)" for t
    by (simp add: transformCall_def num_or_one_cases num_or_zero_cases)
  have st: "shapeTransform x = (case x of None \<Rightarrow> [] | Some t \<Rightarrow> [transformCall t])" for x
    by (simp add: shapeTransform_def)
  have "filter isTransform (o_calls (render cv bc de v f)) =
      concat (map (\<lambda>sp. filter isTransform (renderFrame bc de sp (sp_frames sp ! f)))
        (takeWhile (\<lambda>sp. f < length (sp_frames sp)) (v_sprites v)))"
    by (simp add: render_calls [OF assms] renderSprites_concat filter_concat_map)
  then show "(let applied = (\<lambda>t. TransformBy
          (case t_a t of None \<Rightarrow> Num 1
           | Some v \<Rightarrow> if v = Num 0 \<or> v = NaN then Num 1 else v)
          (case t_b t of None \<Rightarrow> Num 0 | Some v \<Rightarrow> if v = NaN then Num 0 else v)
          (case t_c t of None \<Rightarrow> Num 0 | Some v \<Rightarrow> if v = NaN then Num 0 else v)
          (case t_d t of None \<Rightarrow> Num 1
           | Some v \<Rightarrow> if v = Num 0 \<or> v = NaN then Num 1 else v)
          (case t_tx t of None \<Rightarrow> Num 0 | Some v \<Rightarrow> if v = NaN then Num 0 else v)
          (case t_ty t of None \<Rightarrow> Num 0 | Some v \<Rightarrow> if v = NaN then Num 0 else v))
      in filter isTransform (o_calls (render cv bc de v f)) =
           concat (map
             (\<lambda>sp. if js_lt (f_alpha (sp_frames sp ! f)) (Num (5 / 100)) then []
                    else applied (f_transform (sp_frames sp ! f)) #
                      concat (map
                        (\<lambda>sh. if isDrawn sh
                               then (case sh_transform sh of None \<Rightarrow> []
                                     | Some t \<Rightarrow> [applied t])
                               else [])
                        (case f_shapes (sp_frames sp ! f) of None \<Rightarrow> []
                         | Some shs \<Rightarrow> shs)))
             (takeWhile (\<lambda>sp. f < length (sp_frames sp)) (v_sprites v))))"
    unfolding Let_def transforms_renderFrame transforms_drawShapes st tc by simp
  have "list_all (\<lambda>c. \<not> zeroScale c) (o_calls (render cv bc de v f))"
    using zeroScale_renderSprites [of bc de f "v_sprites v"]
    by (simp add: render_calls [OF assms])
  then show "filter zeroScale (o_calls (render cv bc de v f)) = []"
    by (rule filter_never)
qed

theorem zero_scale_replaced_witness:
  "filter isTransform
     (o_calls (render \<lparr>c_offscreen = False, c_has2d = True\<rparr> Map.empty Map.empty
        \<lparr>v_sprites = [\<lparr>sp_imageKey = None, sp_frames =
          [\<lparr>f_alpha = Num 1,
            f_transform = \<lparr>t_a = Some (Num 0), t_b = Some (Num 1), t_c = Some (Num (- 1)),
                           t_d = Some (Num 0), t_tx = None, t_ty = None\<rparr>,
            f_layout = \<lparr>l_width = Num 10, l_height = Num 10\<rparr>,
            f_clipPath = None,
            f_shapes = Some [\<lparr>sh_type = RECT, sh_shape = None, sh_ellipse = None,
              sh_rect = Some \<lparr>ra_x = None, ra_y = None, ra_width = Some (Num 8),
                ra_height = Some (Num 8), ra_cornerRadius = None\<rparr>,
              sh_transform = Some \<lparr>t_a = Some (Num 2), t_b = None, t_c = None,
                t_d = Some (Num 0), t_tx = Some (Num 5), t_ty = None\<rparr>,
              sh_styles = None\<rparr>]\<rparr>]\<rparr>]\<rparr> 0)) =
     [TransformBy (Num 1) (Num 1) (Num (- 1)) (Num 1) (Num 0) (Num 0),
      TransformBy (Num 2) (Num 0) (Num 0) (Num 1) (Num 5) (Num 0)]"
  using zero_scale_replaced
    [of "\<lparr>c_offscreen = False, c_has2d = True\<rparr>" Map.empty Map.empty
        "\<lparr>v_sprites = [\<lparr>sp_imageKey = None, sp_frames =
          [\<lparr>f_alpha = Num 1,
            f_transform = \<lparr>t_a = Some (Num 0), t_b = Some (Num 1), t_c = Some (Num (- 1)),
                           t_d = Some (Num 0), t_tx = None, t_ty = None\<rparr>,
            f_layout = \<lparr>l_width = Num 10, l_height = Num 10\<rparr>,
            f_clipPath = None,
            f_shapes = Some [\<lparr>sh_type = RECT, sh_shape = None, sh_ellipse = None,
              sh_rect = Some \<lparr>ra_x = None, ra_y = None, ra_width = Some (Num 8),
                ra_height = Some (Num 8), ra_cornerRadius = None\<rparr>,
              sh_transform = Some \<lparr>t_a = Some (Num 2), t_b = None, t_c = None,
                t_d = Some (Num 0), t_tx = Some (Num 5), t_ty = None\<rparr>,
              sh_styles = None\<rparr>]\<rparr>]\<rparr>]\<rparr>" 0]
  by (simp add: Let_def isDrawn_def)

text \<open>
  C6. The calls of \<^verbatim>\<open>render\<close> are the calls of its sprites one after the other, in
  list order, where a sprite whose frame has \<open>alpha < 0.05\<close> contributes no call at all.
  (The loop stops at the first sprite that has no frame at the index; when every sprite
  has one, the \<open>takeWhile\<close> below is the whole list.)
\<close>

theorem invisible_sprites_skipped:
  assumes "c_has2d cv"
  shows "o_calls (render cv bc de v f) =
           concat (map (\<lambda>sp. if js_lt (f_alpha (sp_frames sp ! f)) (Num (5 / 100)) then []
                               else renderFrame bc de sp (sp_frames sp ! f))
             (takeWhile (\<lambda>sp. f < length (sp_frames sp)) (v_sprites v)))"
proof -
  have "o_calls (render cv bc de v f) = fst (renderSprites bc de f (v_sprites v))"
    using assms by (rule render_calls)
  also have "\<dots> = concat (map (\<lambda>sp. renderFrame bc de sp (sp_frames sp ! f))
       (takeWhile (\<lambda>sp. f < length (sp_frames sp)) (v_sprites v)))"
    by (rule renderSprites_concat)
  also have "\<dots> = concat (map (\<lambda>sp. if js_lt (f_alpha (sp_frames sp ! f)) (Num (5 / 100)) then []
                               else renderFrame bc de sp (sp_frames sp ! f))
             (takeWhile (\<lambda>sp. f < length (sp_frames sp)) (v_sprites v)))"
    using renderFrame_skip by metis
  finally show ?thesis .
qed

theorem invisible_sprites_skipped_witness:
  "c_has2d \<lparr>c_offscreen = False, c_has2d = True\<rparr>
   \<and> o_calls (render \<lparr>c_offscreen = False, c_has2d = True\<rparr> Map.empty Map.empty
       \<lparr>v_sprites =
          [\<lparr>sp_imageKey = None, sp_frames =
             [\<lparr>f_alpha = Num (1 / 100),
               f_transform = \<lparr>t_a = Some (Num 2), t_b = None, t_c = None,
                               t_d = Some (Num 2), t_tx = None, t_ty = None\<rparr>,
               f_layout = \<lparr>l_width = Num 10, l_height = Num 10\<rparr>,
               f_clipPath = None, f_shapes = None\<rparr>]\<rparr>,
           \<lparr>sp_imageKey = None, sp_frames =
             [\<lparr>f_alpha = Num 1,
               f_transform = \<lparr>t_a = Some (Num 3), t_b = None, t_c = None,
                               t_d = Some (Num 3), t_tx = None, t_ty = None\<rparr>,
               f_layout = \<lparr>l_width = Num 10, l_height = Num 10\<rparr>,
               f_clipPath = None, f_shapes = None\<rparr>]\<rparr>]\<rparr> 0) =
     [Save, SetGlobalAlpha (Num 1),
      TransformBy (Num 3) (Num 0) (Num 0) (Num 3) (Num 0) (Num 0), Restore]"
  using invisible_sprites_skipped
    [of "\<lparr>c_offscreen = False, c_has2d = True\<rparr>" Map.empty Map.empty
       "\<lparr>v_sprites =
          [\<lparr>sp_imageKey = None, sp_frames =
             [\<lparr>f_alpha = Num (1 / 100),
               f_transform = \<lparr>t_a = Some (Num 2), t_b = None, t_c = None,
                               t_d = Some (Num 2), t_tx = None, t_ty = None\<rparr>,
               f_layout = \<lparr>l_width = Num 10, l_height = Num 10\<rparr>,
               f_clipPath = None, f_shapes = None\<rparr>]\<rparr>,
           \<lparr>sp_imageKey = None, sp_frames =
             [\<lparr>f_alpha = Num 1,
               f_transform = \<lparr>t_a = Some (Num 3), t_b = None, t_c = None,
                               t_d = Some (Num 3), t_tx = None, t_ty = None\<rparr>,
               f_layout = \<lparr>l_width = Num 10, l_height = Num 10\<rparr>,
               f_clipPath = None, f_shapes = None\<rparr>]\<rparr>]\<rparr>" 0]
  by (simp add: renderFrame_def transformCall_def lookupKey_def bitmapCalls_def
      dynamicCalls_def drawShapes_def)

text \<open>
  C5 as stated fails: a field that is present is not always passed through. The frame
  below carries the quarter turn \<open>(a, b, c, d) = (0, 1, -1, 0)\<close>, every field present;
  the context receives \<open>(1, 1, -1, 1)\<close>.
\<close>

theorem present_zero_not_passed_through:
  "o_calls (render \<lparr>c_offscreen = False, c_has2d = True\<rparr> Map.empty Map.empty
      \<lparr>v_sprites = [\<lparr>sp_imageKey = None, sp_frames =
         [\<lparr>f_alpha = Num 1,
           f_transform = \<lparr>t_a = Some (Num 0), t_b = Some (Num 1), t_c = Some (Num (- 1)),
                          t_d = Some (Num 0), t_tx = Some (Num 0), t_ty = Some (Num 0)\<rparr>,
           f_layout = \<lparr>l_width = Num 10, l_height = Num 10\<rparr>,
           f_clipPath = None, f_shapes = None\<rparr>]\<rparr>]\<rparr> 0)
   = [Save, SetGlobalAlpha (Num 1),
      TransformBy (Num 1) (Num 1) (Num (- 1)) (Num 1) (Num 0) (Num 0), Restore]"
  by (simp add: render_def renderFrame_def transformCall_def lookupKey_def bitmapCalls_def
      dynamicCalls_def drawShapes_def)

text \<open>
  C5, amended. For a frame that is drawn, the third call is the transform, and each of its
  components is: the default (1 for \<open>a\<close> and \<open>d\<close>, 0 for \<open>b\<close>, \<open>c\<close>, \<open>tx\<close>, \<open>ty\<close>)
  when the field is absent; the field's value when it is present and a number other than
  zero; and again the default when the field is present with the value zero or \<open>NaN\<close>
  (for \<open>b\<close>, \<open>c\<close>, \<open>tx\<close>, \<open>ty\<close> a zero is its own default, so only \<open>NaN\<close> changes).
\<close>

theorem frame_transform_defaults:
  assumes "\<not> js_lt (f_alpha fr) (Num (5 / 100))"
  shows "\<exists>rest. renderFrame bc de sp fr =
           Save # SetGlobalAlpha (f_alpha fr) #
           TransformBy
             (case t_a (f_transform fr) of None \<Rightarrow> Num 1
              | Some v \<Rightarrow> if v = Num 0 \<or> v = NaN then Num 1 else v)
             (case t_b (f_transform fr) of None \<Rightarrow> Num 0
              | Some v \<Rightarrow> if v = NaN then Num 0 else v)
             (case t_c (f_transform fr) of None \<Rightarrow> Num 0
              | Some v \<Rightarrow> if v = NaN then Num 0 else v)
             (case t_d (f_transform fr) of None \<Rightarrow> Num 1
              | Some v \<Rightarrow> if v = Num 0 \<or> v = NaN then Num 1 else v)
             (case t_tx (f_transform fr) of None \<Rightarrow> Num 0
              | Some v \<Rightarrow> if v = NaN then Num 0 else v)
             (case t_ty (f_transform fr) of None \<Rightarrow> Num 0
              | Some v \<Rightarrow> if v = NaN then Num 0 else v) # rest"
proof -
  have one: "num_or x (Num 1) =
      (case x of None \<Rightarrow> Num 1 | Some v \<Rightarrow> if v = Num 0 \<or> v = NaN then Num 1 else v)" for x
    by (cases x; cases "the x") auto
  have zero: "num_or x (Num 0) =
      (case x of None \<Rightarrow> Num 0 | Some v \<Rightarrow> if v = NaN then Num 0 else v)" for x
    by (cases x; cases "the x") auto
  show ?thesis
    using assms by (simp add: renderFrame_def transformCall_def one zero)
qed

theorem frame_transform_defaults_witness:
  "\<not> js_lt (Num 1) (Num (5 / 100))
   \<and> (\<exists>rest. renderFrame Map.empty Map.empty \<lparr>sp_imageKey = None, sp_frames = []\<rparr>
        \<lparr>f_alpha = Num 1,
         f_transform = \<lparr>t_a = None, t_b = None, t_c = Some (Num 0), t_d = Some (Num 2),
                        t_tx = Some (Num 7), t_ty = Some NaN\<rparr>,
         f_layout = \<lparr>l_width = Num 10, l_height = Num 10\<rparr>,
         f_clipPath = None, f_shapes = None\<rparr> =
       Save # SetGlobalAlpha (Num 1) #
       TransformBy (Num 1) (Num 0) (Num 0) (Num 2) (Num 7) (Num 0) # rest)"
  using frame_transform_defaults
    [of "\<lparr>f_alpha = Num 1,
         f_transform = \<lparr>t_a = None, t_b = None, t_c = Some (Num 0), t_d = Some (Num 2),
                        t_tx = Some (Num 7), t_ty = Some NaN\<rparr>,
         f_layout = \<lparr>l_width = Num 10, l_height = Num 10\<rparr>,
         f_clipPath = None, f_shapes = None\<rparr>" Map.empty Map.empty "\<lparr>sp_imageKey = None, sp_frames = []\<rparr>"]
  by simp

text \<open>
  C8. For a dynamic element whose source has the finite, non-zero dimensions \<open>sw\<close> and
  \<open>sh\<close>, in a frame whose layout is \<open>lw\<close> by \<open>lh\<close>: \<open>contain\<close> draws the source scaled
  by \<open>min (lw / sw) (lh / sh)\<close> and \<open>cover\<close> by the \<open>max\<close> of the two ratios, both at
  the offsets that centre the scaled rectangle in the layout; \<open>fill\<close> draws it at the
  origin with exactly the layout's width and height; \<open>none\<close>, and an element given without
  a fit, draw it with the three-argument form (its own size) at the offsets that centre
  \<open>sw\<close> by \<open>sh\<close> in the layout.
\<close>

theorem fit_strategies:
  assumes "sourceWidth src = Num sw" and "sourceHeight src = Num sh"
    and "sw \<noteq> 0" and "sh \<noteq> 0"
    and "f_layout fr = \<lparr>l_width = Num lw, l_height = Num lh\<rparr>"
  shows "dynamicCalls (Some (WithFit src ''contain'')) fr =
           (let k = min (lw / sw) (lh / sh) in
            [DrawImage5 src (Num ((lw - k * sw) / 2)) (Num ((lh - k * sh) / 2))
               (Num (k * sw)) (Num (k * sh))])
       \<and> dynamicCalls (Some (WithFit src ''cover'')) fr =
           (let k = max (lw / sw) (lh / sh) in
            [DrawImage5 src (Num ((lw - k * sw) / 2)) (Num ((lh - k * sh) / 2))
               (Num (k * sw)) (Num (k * sh))])
       \<and> dynamicCalls (Some (WithFit src ''fill'')) fr =
            [DrawImage5 src (Num 0) (Num 0) (Num lw) (Num lh)]
       \<and> dynamicCalls (Some (WithFit src ''none'')) fr =
            [DrawImage3 src (Num ((lw - sw) / 2)) (Num ((lh - sh) / 2))]
       \<and> dynamicCalls (Some (Bare src)) fr =
            [DrawImage3 src (Num ((lw - sw) / 2)) (Num ((lh - sh) / 2))]"
  using assms
  by (simp add: dynamicCalls_def drawFitted_def Let_def js_sub_def min_max_Num
      del: Math_min.simps Math_max.simps)

theorem fit_strategies_witness:
  "dynamicCalls (Some (WithFit (HTMLImageElement (Num 4) (Num 2)) ''contain''))
      \<lparr>f_alpha = Num 1,
           f_transform = \<lparr>t_a = Some (Num 1), t_b = None, t_c = None,
                          t_d = Some (Num 1), t_tx = None, t_ty = None\<rparr>,
           f_layout = \<lparr>l_width = Num 10, l_height = Num 10\<rparr>,
           f_clipPath = None, f_shapes = None\<rparr> =
     [DrawImage5 (HTMLImageElement (Num 4) (Num 2)) (Num 0) (Num (5 / 2)) (Num 10) (Num 5)]
   \<and> dynamicCalls (Some (WithFit (HTMLImageElement (Num 4) (Num 2)) ''cover''))
      \<lparr>f_alpha = Num 1,
           f_transform = \<lparr>t_a = Some (Num 1), t_b = None, t_c = None,
                          t_d = Some (Num 1), t_tx = None, t_ty = None\<rparr>,
           f_layout = \<lparr>l_width = Num 10, l_height = Num 10\<rparr>,
           f_clipPath = None, f_shapes = None\<rparr> =
     [DrawImage5 (HTMLImageElement (Num 4) (Num 2)) (Num (- 5)) (Num 0) (Num 20) (Num 10)]
   \<and> dynamicCalls (Some (WithFit (HTMLImageElement (Num 4) (Num 2)) ''fill''))
      \<lparr>f_alpha = Num 1,
           f_transform = \<lparr>t_a = Some (Num 1), t_b = None, t_c = None,
                          t_d = Some (Num 1), t_tx = None, t_ty = None\<rparr>,
           f_layout = \<lparr>l_width = Num 10, l_height = Num 10\<rparr>,
           f_clipPath = None, f_shapes = None\<rparr> =
     [DrawImage5 (HTMLImageElement (Num 4) (Num 2)) (Num 0) (Num 0) (Num 10) (Num 10)]
   \<and> dynamicCalls (Some (Bare (HTMLImageElement (Num 4) (Num 2))))
      \<lparr>f_alpha = Num 1,
           f_transform = \<lparr>t_a = Some (Num 1), t_b = None, t_c = None,
                          t_d = Some (Num 1), t_tx = None, t_ty = None\<rparr>,
           f_layout = \<lparr>l_width = Num 10, l_height = Num 10\<rparr>,
           f_clipPath = None, f_shapes = None\<rparr> =
     [DrawImage3 (HTMLImageElement (Num 4) (Num 2)) (Num 3) (Num 4)]"
  using fit_strategies
    [of "HTMLImageElement (Num 4) (Num 2)" 4 2
        "\<lparr>f_alpha = Num 1,
           f_transform = \<lparr>t_a = Some (Num 1), t_b = None, t_c = None,
                          t_d = Some (Num 1), t_tx = None, t_ty = None\<rparr>,
           f_layout = \<lparr>l_width = Num 10, l_height = Num 10\<rparr>,
           f_clipPath = None, f_shapes = None\<rparr>" 10 10]
  by (simp add: Let_def)

text \<open>
  C1 as stated fails: an override does not suppress the blit of the cached bitmap. With
  a bitmap and an override under the same key, the context receives the bitmap at the
  local origin and then the override.
\<close>

theorem override_does_not_replace_bitmap:
  "o_calls (render \<lparr>c_offscreen = False, c_has2d = True\<rparr>
      [''banner'' \<mapsto> HTMLImageElement (Num 10) (Num 10)]
      [''banner'' \<mapsto> Bare (OtherSource (Num 4) (Num 4))]
      \<lparr>v_sprites = [\<lparr>sp_imageKey = Some ''banner'', sp_frames =
         [\<lparr>f_alpha = Num 1,
           f_transform = \<lparr>t_a = Some (Num 1), t_b = None, t_c = None,
                          t_d = Some (Num 1), t_tx = None, t_ty = None\<rparr>,
           f_layout = \<lparr>l_width = Num 10, l_height = Num 10\<rparr>,
           f_clipPath = None, f_shapes = None\<rparr>]\<rparr>]\<rparr> 0)
   = [Save, SetGlobalAlpha (Num 1),
      TransformBy (Num 1) (Num 0) (Num 0) (Num 1) (Num 0) (Num 0),
      DrawImage3 (HTMLImageElement (Num 10) (Num 10)) (Num 0) (Num 0),
      DrawImage3 (OtherSource (Num 4) (Num 4)) (Num 3) (Num 3),
      Restore]"
  by (simp add: render_def renderFrame_def transformCall_def lookupKey_def bitmapCalls_def
      clipCalls_def dynamicCalls_def drawFitted_def drawShapes_def js_sub_def)

text \<open>
  C1, amended. For a sprite that is drawn and whose image key has an override, the
  \<^verbatim>\<open>drawImage\<close> calls of the sprite are: the blit of the cached bitmap at the local
  origin when the cache has one for the key, and then the override's drawable, placed by
  its fit. The override is drawn after the bitmap, not in its place.
\<close>

theorem override_drawn_after_bitmap:
  assumes "\<not> js_lt (f_alpha fr) (Num (5 / 100))"
    and "sp_imageKey sp = Some k" and "k \<noteq> []" and "de k = Some el"
  shows "filter isDrawImage (renderFrame bc de sp fr) =
           (case bc k of None \<Rightarrow> [] | Some img \<Rightarrow> [DrawImage3 img (Num 0) (Num 0)]) @
           [drawFitted (f_layout fr) (elementSource el) (elementFit el)]"
proof -
  have "renderFrame bc de sp fr =
      [Save, SetGlobalAlpha (f_alpha fr), transformCall (f_transform fr)] @
      (case bc k of None \<Rightarrow> []
       | Some img \<Rightarrow> clipCalls (f_clipPath fr) @ [DrawImage3 img (Num 0) (Num 0)]) @
      [drawFitted (f_layout fr) (elementSource el) (elementFit el)] @
      drawShapes (f_shapes fr) @ [Restore]"
    using assms by (simp add: renderFrame_def lookupKey_def bitmapCalls_def dynamicCalls_def)
  then show ?thesis
    by (cases "bc k")
       (simp_all add: drawImage_shapes drawImage_clip isDrawImage_drawFitted transformCall_def)
qed

theorem override_drawn_after_bitmap_witness:
  "filter isDrawImage
     (renderFrame [''banner'' \<mapsto> HTMLImageElement (Num 10) (Num 10)]
        [''banner'' \<mapsto> WithFit (OtherSource (Num 4) (Num 4)) ''fill'']
        \<lparr>sp_imageKey = Some ''banner'', sp_frames = []\<rparr>
        \<lparr>f_alpha = Num 1,
           f_transform = \<lparr>t_a = Some (Num 1), t_b = None, t_c = None,
                          t_d = Some (Num 1), t_tx = None, t_ty = None\<rparr>,
           f_layout = \<lparr>l_width = Num 10, l_height = Num 10\<rparr>,
           f_clipPath = Some ''M0 0 L4 0 L4 4 Z'', f_shapes = Some []\<rparr>) =
     [DrawImage3 (HTMLImageElement (Num 10) (Num 10)) (Num 0) (Num 0),
      DrawImage5 (OtherSource (Num 4) (Num 4)) (Num 0) (Num 0) (Num 10) (Num 10)]"
  using override_drawn_after_bitmap
    [of "\<lparr>f_alpha = Num 1,
           f_transform = \<lparr>t_a = Some (Num 1), t_b = None, t_c = None,
                          t_d = Some (Num 1), t_tx = None, t_ty = None\<rparr>,
           f_layout = \<lparr>l_width = Num 10, l_height = Num 10\<rparr>,
           f_clipPath = Some ''M0 0 L4 0 L4 4 Z'', f_shapes = Some []\<rparr>"
        "\<lparr>sp_imageKey = Some ''banner'', sp_frames = []\<rparr>" "''banner''"
        "[''banner'' \<mapsto> WithFit (OtherSource (Num 4) (Num 4)) ''fill'']"
        "WithFit (OtherSource (Num 4) (Num 4)) ''fill''"
        "[''banner'' \<mapsto> HTMLImageElement (Num 10) (Num 10)]"]
  by (simp add: drawFitted_def)

text \<open>
  C2 as stated fails: the shapes of a sprite are painted under the sprite's clip. The
  frame below has a bitmap, a clip path and one filled rect shape; the \<^verbatim>\<open>fill\<close> of
  the shape is issued while the clipping region is in force. Without the clip path the
  same \<^verbatim>\<open>fill\<close> is issued with no clipping region.
\<close>

theorem clip_reaches_shapes:
  "paintedUnder (False, [])
     (renderFrame [''banner'' \<mapsto> HTMLImageElement (Num 10) (Num 10)] Map.empty
        \<lparr>sp_imageKey = Some ''banner'', sp_frames = []\<rparr>
        \<lparr>f_alpha = Num 1,
         f_transform = \<lparr>t_a = Some (Num 1), t_b = None, t_c = None,
                        t_d = Some (Num 1), t_tx = None, t_ty = None\<rparr>,
         f_layout = \<lparr>l_width = Num 10, l_height = Num 10\<rparr>,
         f_clipPath = Some ''M0 0 L4 0 L4 4 Z'',
         f_shapes = Some [\<lparr>sh_type = RECT, sh_shape = None, sh_ellipse = None,
           sh_rect = Some \<lparr>ra_x = Some (Num 0), ra_y = Some (Num 0),
             ra_width = Some (Num 8), ra_height = Some (Num 8), ra_cornerRadius = None\<rparr>,
           sh_transform = None,
           sh_styles = Some \<lparr>st_fill = Some [1, 0, 0, 1], st_stroke = None,
             st_fillStr = Some ''red'', st_strokeStr = None, st_strokeWidth = None,
             st_lineCapStr = None, st_lineJoinStr = None, st_miterLimit = None,
             st_lineDashI = None, st_lineDashII = None, st_lineDashIII = None\<rparr>\<rparr>]\<rparr>)
   = [(Fill, True)]
   \<and> paintedUnder (False, [])
     (renderFrame [''banner'' \<mapsto> HTMLImageElement (Num 10) (Num 10)] Map.empty
        \<lparr>sp_imageKey = Some ''banner'', sp_frames = []\<rparr>
        \<lparr>f_alpha = Num 1,
         f_transform = \<lparr>t_a = Some (Num 1), t_b = None, t_c = None,
                        t_d = Some (Num 1), t_tx = None, t_ty = None\<rparr>,
         f_layout = \<lparr>l_width = Num 10, l_height = Num 10\<rparr>,
         f_clipPath = None,
         f_shapes = Some [\<lparr>sh_type = RECT, sh_shape = None, sh_ellipse = None,
           sh_rect = Some \<lparr>ra_x = Some (Num 0), ra_y = Some (Num 0),
             ra_width = Some (Num 8), ra_height = Some (Num 8), ra_cornerRadius = None\<rparr>,
           sh_transform = None,
           sh_styles = Some \<lparr>st_fill = Some [1, 0, 0, 1], st_stroke = None,
             st_fillStr = Some ''red'', st_strokeStr = None, st_strokeWidth = None,
             st_lineCapStr = None, st_lineJoinStr = None, st_miterLimit = None,
             st_lineDashI = None, st_lineDashII = None, st_lineDashIII = None\<rparr>\<rparr>]\<rparr>)
   = [(Fill, False)]"
  by code_simp

text \<open>
  C2, amended. For a frame that is drawn, has a bitmap and declares a clip path, the
  calls are those of the same frame without the clip path, with the clip block (the path
  of the clip, then \<^verbatim>\<open>clip\<close>) inserted before the blit; the calls issued for the
  shape list are the same in both. But \<^verbatim>\<open>clip\<close> is issued at the sprite's save level
  and is undone only by the sprite's closing \<^verbatim>\<open>restore\<close>, after the shapes: every
  \<^verbatim>\<open>fill\<close> and \<^verbatim>\<open>stroke\<close> of the frame is one of its shapes' and is issued with
  the clipping region in force, whereas without the clip path each is issued with the
  clipping state the sprite started in.
\<close>

theorem shapes_painted_under_clip:
  assumes "\<not> js_lt (f_alpha fr) (Num (5 / 100))"
    and "lookupKey (sp_imageKey sp) bc = Some img"
    and "f_clipPath fr = Some cp" and "cp \<noteq> []"
  shows "renderFrame bc de sp fr =
           [Save, SetGlobalAlpha (f_alpha fr), transformCall (f_transform fr)] @
           drawBezier \<lparr>bp_d = cp, bp_transform = None, bp_styles = None\<rparr> @ [Clip] @
           [DrawImage3 img (Num 0) (Num 0)] @
           dynamicCalls (lookupKey (sp_imageKey sp) de) fr @
           drawShapes (f_shapes fr) @ [Restore]
       \<and> renderFrame bc de sp (fr\<lparr>f_clipPath := None\<rparr>) =
           [Save, SetGlobalAlpha (f_alpha fr), transformCall (f_transform fr)] @
           [DrawImage3 img (Num 0) (Num 0)] @
           dynamicCalls (lookupKey (sp_imageKey sp) de) fr @
           drawShapes (f_shapes fr) @ [Restore]
       \<and> paintedUnder (clipped, saved) (renderFrame bc de sp fr) =
           map (\<lambda>c. (c, True)) (filter isPaint (drawShapes (f_shapes fr)))
       \<and> paintedUnder (clipped, saved) (renderFrame bc de sp (fr\<lparr>f_clipPath := None\<rparr>)) =
           map (\<lambda>c. (c, clipped)) (filter isPaint (drawShapes (f_shapes fr)))"
proof (intro conjI)
  let ?dyn = "dynamicCalls (lookupKey (sp_imageKey sp) de) fr"
  let ?clip = "drawBezier \<lparr>bp_d = cp, bp_transform = None, bp_styles = None\<rparr>"
  show tr_clip: "renderFrame bc de sp fr =
           [Save, SetGlobalAlpha (f_alpha fr), transformCall (f_transform fr)] @
           ?clip @ [Clip] @ [DrawImage3 img (Num 0) (Num 0)] @ ?dyn @
           drawShapes (f_shapes fr) @ [Restore]"
    using assms by (simp add: renderFrame_def bitmapCalls_def clipCalls_def)
  show tr_plain: "renderFrame bc de sp (fr\<lparr>f_clipPath := None\<rparr>) =
           [Save, SetGlobalAlpha (f_alpha fr), transformCall (f_transform fr)] @
           [DrawImage3 img (Num 0) (Num 0)] @ ?dyn @
           drawShapes (f_shapes fr) @ [Restore]"
    using assms
    by (simp add: renderFrame_def bitmapCalls_def clipCalls_def dynamicCalls_layout_only)
  have head: "runClip (clipped, saved)
        [Save, SetGlobalAlpha (f_alpha fr), transformCall (f_transform fr)] =
      (clipped, clipped # saved)"
    by (simp add: runClip_def transformCall_def)
  have head_paint: "paintedUnder (clipped, saved)
        [Save, SetGlobalAlpha (f_alpha fr), transformCall (f_transform fr)] = []"
    by (simp add: transformCall_def)
  have dyn_run: "runClip st ?dyn = st" for st
    by (rule runClip_neutral) (rule dynamicCalls_neutral)
  have dyn_paint: "paintedUnder st ?dyn = []" for st
    by (simp add: paintedUnder_neutral [OF dynamicCalls_neutral] dynamicCalls_no_paint)
  show "paintedUnder (clipped, saved) (renderFrame bc de sp fr) =
           map (\<lambda>c. (c, True)) (filter isPaint (drawShapes (f_shapes fr)))"
    unfolding tr_clip
    by (simp add: paintedUnder_append runClip_append head head_paint painters_scoped
        clip_painter_unstyled dyn_run dyn_paint drawShapes_scoped transformCall_def)
  show "paintedUnder (clipped, saved) (renderFrame bc de sp (fr\<lparr>f_clipPath := None\<rparr>)) =
           map (\<lambda>c. (c, clipped)) (filter isPaint (drawShapes (f_shapes fr)))"
    unfolding tr_plain
    by (simp add: paintedUnder_append runClip_append head head_paint
        dyn_run dyn_paint drawShapes_scoped transformCall_def)
qed

theorem shapes_painted_under_clip_witness:
  "paintedUnder (False, [])
     (renderFrame [''avatar'' \<mapsto> OtherSource (Num 6) (Num 6)] Map.empty
        \<lparr>sp_imageKey = Some ''avatar'', sp_frames = []\<rparr>
        \<lparr>f_alpha = Num (1 / 2),
         f_transform = \<lparr>t_a = None, t_b = None, t_c = None,
                        t_d = None, t_tx = Some (Num 3), t_ty = None\<rparr>,
         f_layout = \<lparr>l_width = Num 6, l_height = Num 6\<rparr>,
         f_clipPath = Some ''M0 0 L6 0 L6 6 Z'',
         f_shapes = Some [\<lparr>sh_type = ELLIPSE, sh_shape = None,
           sh_ellipse = Some \<lparr>ea_x = Some (Num 3), ea_y = Some (Num 3),
             ea_radiusX = Some (Num 5), ea_radiusY = Some (Num 5)\<rparr>,
           sh_rect = None, sh_transform = None,
           sh_styles = Some \<lparr>st_fill = None, st_stroke = Some [0, 0, 0, 1],
             st_fillStr = None, st_strokeStr = Some ''black'', st_strokeWidth = Some (Num 2),
             st_lineCapStr = None, st_lineJoinStr = None, st_miterLimit = None,
             st_lineDashI = None, st_lineDashII = None, st_lineDashIII = None\<rparr>\<rparr>]\<rparr>)
   = [(Stroke, True)]
   \<and> paintedUnder (False, [])
     (renderFrame [''avatar'' \<mapsto> OtherSource (Num 6) (Num 6)] Map.empty
        \<lparr>sp_imageKey = Some ''avatar'', sp_frames = []\<rparr>
        (\<lparr>f_alpha = Num (1 / 2),
         f_transform = \<lparr>t_a = None, t_b = None, t_c = None,
                        t_d = None, t_tx = Some (Num 3), t_ty = None\<rparr>,
         f_layout = \<lparr>l_width = Num 6, l_height = Num 6\<rparr>,
         f_clipPath = Some ''M0 0 L6 0 L6 6 Z'',
         f_shapes = Some [\<lparr>sh_type = ELLIPSE, sh_shape = None,
           sh_ellipse = Some \<lparr>ea_x = Some (Num 3), ea_y = Some (Num 3),
             ea_radiusX = Some (Num 5), ea_radiusY = Some (Num 5)\<rparr>,
           sh_rect = None, sh_transform = None,
           sh_styles = Some \<lparr>st_fill = None, st_stroke = Some [0, 0, 0, 1],
             st_fillStr = None, st_strokeStr = Some ''black'', st_strokeWidth = Some (Num 2),
             st_lineCapStr = None, st_lineJoinStr = None, st_miterLimit = None,
             st_lineDashI = None, st_lineDashII = None, st_lineDashIII = None\<rparr>\<rparr>]\<rparr>
         \<lparr>f_clipPath := None\<rparr>))
   = [(Stroke, False)]"
proof -
  let ?shape = "\<lparr>sh_type = ELLIPSE, sh_shape = None,
           sh_ellipse = Some \<lparr>ea_x = Some (Num 3), ea_y = Some (Num 3),
             ea_radiusX = Some (Num 5), ea_radiusY = Some (Num 5)\<rparr>,
           sh_rect = None, sh_transform = None,
           sh_styles = Some \<lparr>st_fill = None, st_stroke = Some [0, 0, 0, 1],
             st_fillStr = None, st_strokeStr = Some ''black'', st_strokeWidth = Some (Num 2),
             st_lineCapStr = None, st_lineJoinStr = None, st_miterLimit = None,
             st_lineDashI = None, st_lineDashII = None, st_lineDashIII = None\<rparr>\<rparr>"
  let ?fr = "\<lparr>f_alpha = Num (1 / 2),
         f_transform = \<lparr>t_a = None, t_b = None, t_c = None,
                        t_d = None, t_tx = Some (Num 3), t_ty = None\<rparr>,
         f_layout = \<lparr>l_width = Num 6, l_height = Num 6\<rparr>,
         f_clipPath = Some ''M0 0 L6 0 L6 6 Z'',
         f_shapes = Some [?shape]\<rparr>"
  have paints: "filter isPaint (drawShapes (Some [?shape])) = [Stroke]"
    by code_simp
  have h1: "\<not> js_lt (f_alpha ?fr) (Num (5 / 100))"
    by simp
  have h2: "lookupKey (sp_imageKey \<lparr>sp_imageKey = Some ''avatar'', sp_frames = []\<rparr>)
      [''avatar'' \<mapsto> OtherSource (Num 6) (Num 6)] = Some (OtherSource (Num 6) (Num 6))"
    by (simp add: lookupKey_def)
  have h3: "f_clipPath ?fr = Some ''M0 0 L6 0 L6 6 Z''"
    by simp
  have h4: "''M0 0 L6 0 L6 6 Z'' \<noteq> []"
    by simp
  note both = shapes_painted_under_clip
      [OF h1 h2 h3 h4, where clipped = False and saved = "[]" and de = Map.empty,
       THEN conjunct2, THEN conjunct2]
  show ?thesis
    using both by (simp add: paints)
qed

text \<open>
  C3 as stated fails: the test is not on one control point. In the first path the cubic
  before \<open>S\<close> has the second control point \<open>(10, 10)\<close>, non-zero in both coordinates,
  and \<open>S\<close> is still read as a quadratic curve, because the first control point
  \<open>(0, 5)\<close> has a zero. In the second path the command before \<open>S\<close> is a quadratic
  one, and \<open>S\<close> emits a cubic curve that reflects the second control point \<open>(2, 2)\<close>
  of the earlier cubic about the current point \<open>(5, 5)\<close>.
\<close>

theorem smooth_tests_four_coordinates:
  "pathCalls ''M0 0 C0 5 10 10 20 0 S30 10 40 0'' =
     [MoveTo (Num 0) (Num 0),
      BezierCurveTo (Num 0) (Num 5) (Num 10) (Num 10) (Num 20) (Num 0),
      QuadraticCurveTo (Num 30) (Num 10) (Num 40) (Num 0)]
   \<and> pathCalls ''M0 0 C1 1 2 2 3 3 Q4 4 5 5 S6 6 7 7'' =
     [MoveTo (Num 0) (Num 0),
      BezierCurveTo (Num 1) (Num 1) (Num 2) (Num 2) (Num 3) (Num 3),
      QuadraticCurveTo (Num 4) (Num 4) (Num 5) (Num 5),
      BezierCurveTo (Num 8) (Num 8) (Num 6) (Num 6) (Num 7) (Num 7)]"
  by code_simp

text \<open>
  C3, amended. An \<open>S\<close> or \<open>s\<close> command emits a cubic curve exactly when the four
  stored control coordinates \<open>x1\<close>, \<open>y1\<close>, \<open>x2\<close>, \<open>y2\<close> of the interpreter's point
  are all non-zero numbers; its first control point is then the stored \<open>(x2, y2)\<close>
  reflected about the current point. Otherwise it emits a quadratic curve whose control
  point is the command's first coordinate pair and whose end point is its second (both
  relative to the current point for \<open>s\<close>). The four coordinates are zero at the start
  of every path; \<open>C\<close> and \<open>c\<close> write all four, \<open>Q\<close> and \<open>q\<close> write \<open>x1\<close>, \<open>y1\<close>
  and keep \<open>x2\<close>, \<open>y2\<close>, \<open>S\<close> and \<open>s\<close> write all four when they emit a cubic and
  \<open>x1\<close>, \<open>y1\<close> only when they emit a quadratic, and no other command writes any. In
  every path an \<open>S\<close> or \<open>s\<close> segment is interpreted at the point that the segments
  before it leave behind; when none of those starts with \<open>C\<close> or \<open>c\<close>, the stored
  \<open>x2\<close>, \<open>y2\<close> are still zero and the command is a quadratic curve. The path
  \<open>M0 0 S10 10 20 0\<close> emits the quadratic curve with control point \<open>(10, 10)\<close> and
  end point \<open>(20, 0)\<close>.
\<close>

theorem smooth_curve_rule:
  "snd (drawBezierElement p (CHR ''S'') args) =
     (if js_truthy (cp_x1 p) \<and> js_truthy (cp_y1 p) \<and> js_truthy (cp_x2 p) \<and> js_truthy (cp_y2 p)
      then [BezierCurveTo (js_add (js_sub (cp_x p) (cp_x2 p)) (cp_x p))
              (js_add (js_sub (cp_y p) (cp_y2 p)) (cp_y p))
              (arg args 0) (arg args 1) (arg args 2) (arg args 3)]
      else [QuadraticCurveTo (arg args 0) (arg args 1) (arg args 2) (arg args 3)])
   \<and> snd (drawBezierElement p (CHR ''s'') args) =
     (if js_truthy (cp_x1 p) \<and> js_truthy (cp_y1 p) \<and> js_truthy (cp_x2 p) \<and> js_truthy (cp_y2 p)
      then [BezierCurveTo (js_add (js_sub (cp_x p) (cp_x2 p)) (cp_x p))
              (js_add (js_sub (cp_y p) (cp_y2 p)) (cp_y p))
              (js_add (cp_x p) (arg args 0)) (js_add (cp_y p) (arg args 1))
              (js_add (cp_x p) (arg args 2)) (js_add (cp_y p) (arg args 3))]
      else [QuadraticCurveTo (js_add (cp_x p) (arg args 0)) (js_add (cp_y p) (arg args 1))
              (js_add (cp_x p) (arg args 2)) (js_add (cp_y p) (arg args 3))])
   \<and> controls (fst (drawBezierElement p m args)) =
     (if m = CHR ''C'' then (arg args 0, arg args 1, arg args 2, arg args 3)
      else if m = CHR ''c'' then
        (js_add (cp_x p) (arg args 0), js_add (cp_y p) (arg args 1),
         js_add (cp_x p) (arg args 2), js_add (cp_y p) (arg args 3))
      else if m = CHR ''S'' then
        (if js_truthy (cp_x1 p) \<and> js_truthy (cp_y1 p) \<and> js_truthy (cp_x2 p) \<and> js_truthy (cp_y2 p)
         then (js_add (js_sub (cp_x p) (cp_x2 p)) (cp_x p),
               js_add (js_sub (cp_y p) (cp_y2 p)) (cp_y p), arg args 0, arg args 1)
         else (arg args 0, arg args 1, cp_x2 p, cp_y2 p))
      else if m = CHR ''s'' then
        (if js_truthy (cp_x1 p) \<and> js_truthy (cp_y1 p) \<and> js_truthy (cp_x2 p) \<and> js_truthy (cp_y2 p)
         then (js_add (js_sub (cp_x p) (cp_x2 p)) (cp_x p),
               js_add (js_sub (cp_y p) (cp_y2 p)) (cp_y p),
               js_add (cp_x p) (arg args 0), js_add (cp_y p) (arg args 1))
         else (js_add (cp_x p) (arg args 0), js_add (cp_y p) (arg args 1), cp_x2 p, cp_y2 p))
      else if m = CHR ''Q'' then (arg args 0, arg args 1, cp_x2 p, cp_y2 p)
      else if m = CHR ''q'' then
        (js_add (cp_x p) (arg args 0), js_add (cp_y p) (arg args 1), cp_x2 p, cp_y2 p)
      else controls p)
   \<and> controls origin = (Num 0, Num 0, Num 0, Num 0)
   \<and> (tokenize d = pre @ (k # rest) # post \<longrightarrow> k = CHR ''S'' \<or> k = CHR ''s'' \<longrightarrow>
        pathCalls d =
          drawSegments origin pre @
          snd (drawBezierElement (pointAfter origin pre) k (split (trim rest) '' '')) @
          drawSegments
            (fst (drawBezierElement (pointAfter origin pre) k (split (trim rest) '' ''))) post)
   \<and> (list_all (\<lambda>seg. \<not> startsCubic seg) pre \<longrightarrow>
        cp_x2 (pointAfter origin pre) = Num 0 \<and> cp_y2 (pointAfter origin pre) = Num 0
        \<and> snd (drawBezierElement (pointAfter origin pre) (CHR ''S'') args) =
            [QuadraticCurveTo (arg args 0) (arg args 1) (arg args 2) (arg args 3)]
        \<and> snd (drawBezierElement (pointAfter origin pre) (CHR ''s'') args) =
            [QuadraticCurveTo (js_add (cp_x (pointAfter origin pre)) (arg args 0))
               (js_add (cp_y (pointAfter origin pre)) (arg args 1))
               (js_add (cp_x (pointAfter origin pre)) (arg args 2))
               (js_add (cp_y (pointAfter origin pre)) (arg args 3))])
   \<and> pathCalls ''M0 0 S10 10 20 0'' =
       [MoveTo (Num 0) (Num 0), QuadraticCurveTo (Num 10) (Num 10) (Num 20) (Num 0)]"
proof (intro conjI impI)
  show "pathCalls ''M0 0 S10 10 20 0'' =
       [MoveTo (Num 0) (Num 0), QuadraticCurveTo (Num 10) (Num 10) (Num 20) (Num 0)]"
    by code_simp
  show "controls origin = (Num 0, Num 0, Num 0, Num 0)"
    by (simp add: controls_def origin_def)
  show "controls (fst (drawBezierElement p m args)) =
     (if m = CHR ''C'' then (arg args 0, arg args 1, arg args 2, arg args 3)
      else if m = CHR ''c'' then
        (js_add (cp_x p) (arg args 0), js_add (cp_y p) (arg args 1),
         js_add (cp_x p) (arg args 2), js_add (cp_y p) (arg args 3))
      else if m = CHR ''S'' then
        (if js_truthy (cp_x1 p) \<and> js_truthy (cp_y1 p) \<and> js_truthy (cp_x2 p) \<and> js_truthy (cp_y2 p)
         then (js_add (js_sub (cp_x p) (cp_x2 p)) (cp_x p),
               js_add (js_sub (cp_y p) (cp_y2 p)) (cp_y p), arg args 0, arg args 1)
         else (arg args 0, arg args 1, cp_x2 p, cp_y2 p))
      else if m = CHR ''s'' then
        (if js_truthy (cp_x1 p) \<and> js_truthy (cp_y1 p) \<and> js_truthy (cp_x2 p) \<and> js_truthy (cp_y2 p)
         then (js_add (js_sub (cp_x p) (cp_x2 p)) (cp_x p),
               js_add (js_sub (cp_y p) (cp_y2 p)) (cp_y p),
               js_add (cp_x p) (arg args 0), js_add (cp_y p) (arg args 1))
         else (js_add (cp_x p) (arg args 0), js_add (cp_y p) (arg args 1), cp_x2 p, cp_y2 p))
      else if m = CHR ''Q'' then (arg args 0, arg args 1, cp_x2 p, cp_y2 p)
      else if m = CHR ''q'' then
        (js_add (cp_x p) (arg args 0), js_add (cp_y p) (arg args 1), cp_x2 p, cp_y2 p)
      else controls p)"
    by (rule controls_written)
next
  assume tok: "tokenize d = pre @ (k # rest) # post" and k: "k = CHR ''S'' \<or> k = CHR ''s''"
  have "k \<in> set validMethods"
    using k by (auto simp: validMethods_def)
  then show "pathCalls d =
          drawSegments origin pre @
          snd (drawBezierElement (pointAfter origin pre) k (split (trim rest) '' '')) @
          drawSegments
            (fst (drawBezierElement (pointAfter origin pre) k (split (trim rest) '' ''))) post"
    by (simp add: pathCalls_def tok drawSegments_append split: prod.splits)
next
  assume nc: "list_all (\<lambda>seg. \<not> startsCubic seg) pre"
  have z: "cp_x2 (pointAfter origin pre) = Num 0 \<and> cp_y2 (pointAfter origin pre) = Num 0"
    by (rule second_control_zero [OF nc]) (simp_all add: origin_def)
  show "cp_x2 (pointAfter origin pre) = Num 0" using z by simp
  show "cp_y2 (pointAfter origin pre) = Num 0" using z by simp
  show "snd (drawBezierElement (pointAfter origin pre) (CHR ''S'') args) =
            [QuadraticCurveTo (arg args 0) (arg args 1) (arg args 2) (arg args 3)]"
    using z by (simp add: smoothCondition_def drawBezierElement_def quadraticTo_def)
  show "snd (drawBezierElement (pointAfter origin pre) (CHR ''s'') args) =
            [QuadraticCurveTo (js_add (cp_x (pointAfter origin pre)) (arg args 0))
               (js_add (cp_y (pointAfter origin pre)) (arg args 1))
               (js_add (cp_x (pointAfter origin pre)) (arg args 2))
               (js_add (cp_y (pointAfter origin pre)) (arg args 3))]"
    using z by (simp add: smoothCondition_def drawBezierElement_def quadraticTo_def)
qed (simp_all add: smoothCondition_def drawBezierElement_def bezierTo_def quadraticTo_def)

theorem smooth_curve_rule_witness:
  "tokenize ''M0 0 Q1 1 2 2 s10 10 20 0'' =
     ['''', ''M 0 0 '', ''Q 1 1 2 2 ''] @ (CHR ''s'' # '' 10 10 20 0'') # []
   \<and> list_all (\<lambda>seg. \<not> startsCubic seg) ['''', ''M 0 0 '', ''Q 1 1 2 2 '']
   \<and> pathCalls ''M0 0 Q1 1 2 2 s10 10 20 0'' =
       [MoveTo (Num 0) (Num 0), QuadraticCurveTo (Num 1) (Num 1) (Num 2) (Num 2),
        QuadraticCurveTo (Num 12) (Num 12) (Num 22) (Num 2)]
   \<and> snd (drawBezierElement
          \<lparr>cp_x = Num 20, cp_y = Num 0, cp_x1 = Num 3, cp_y1 = Num 5,
           cp_x2 = Num 10, cp_y2 = Num 10\<rparr> (CHR ''S'') [''30'', ''10'', ''40'', ''0'']) =
     [BezierCurveTo (Num 30) (Num (- 10)) (Num 30) (Num 10) (Num 40) (Num 0)]"
proof -
  let ?pre = "['''', ''M 0 0 '', ''Q 1 1 2 2 '']"
  have tok: "tokenize ''M0 0 Q1 1 2 2 s10 10 20 0'' =
     ?pre @ (CHR ''s'' # '' 10 10 20 0'') # []"
    by code_simp
  have nc: "list_all (\<lambda>seg. \<not> startsCubic seg) ?pre"
    by (simp add: startsCubic_def)
  have pre: "drawSegments origin ?pre =
      [MoveTo (Num 0) (Num 0), QuadraticCurveTo (Num 1) (Num 1) (Num 2) (Num 2)]"
    by code_simp
  have sm: "snd (drawBezierElement (pointAfter origin ?pre) (CHR ''s'')
        (split (trim '' 10 10 20 0'') '' '')) =
       [QuadraticCurveTo (Num 12) (Num 12) (Num 22) (Num 2)]"
    by code_simp
  have a: "arg [''30'', ''10'', ''40'', ''0''] 0 = Num 30"
    "arg [''30'', ''10'', ''40'', ''0''] (Suc 0) = Num 10"
    "arg [''30'', ''10'', ''40'', ''0''] 2 = Num 40"
    "arg [''30'', ''10'', ''40'', ''0''] 3 = Num 0"
    by code_simp+
  note rule = smooth_curve_rule
      [where d = "''M0 0 Q1 1 2 2 s10 10 20 0''" and pre = ?pre and k = "CHR ''s''"
         and rest = "'' 10 10 20 0''" and post = "[]" and m = "CHR ''Q''"
         and p = "\<lparr>cp_x = Num 20, cp_y = Num 0, cp_x1 = Num 3, cp_y1 = Num 5,
           cp_x2 = Num 10, cp_y2 = Num 10\<rparr>"
         and args = "[''30'', ''10'', ''40'', ''0'']"]
  have path: "pathCalls ''M0 0 Q1 1 2 2 s10 10 20 0'' =
       [MoveTo (Num 0) (Num 0), QuadraticCurveTo (Num 1) (Num 1) (Num 2) (Num 2),
        QuadraticCurveTo (Num 12) (Num 12) (Num 22) (Num 2)]"
  proof -
    have k: "CHR ''s'' = CHR ''S'' \<or> CHR ''s'' = CHR ''s''"
      by simp
    note step = rule [THEN conjunct2, THEN conjunct2, THEN conjunct2, THEN conjunct2,
                      THEN conjunct1, THEN mp, OF tok, THEN mp, OF k]
    show ?thesis
      unfolding step pre sm by simp
  qed
  have cubic: "snd (drawBezierElement
          \<lparr>cp_x = Num 20, cp_y = Num 0, cp_x1 = Num 3, cp_y1 = Num 5,
           cp_x2 = Num 10, cp_y2 = Num 10\<rparr> (CHR ''S'') [''30'', ''10'', ''40'', ''0'']) =
     [BezierCurveTo (Num 30) (Num (- 10)) (Num 30) (Num 10) (Num 40) (Num 0)]"
    using rule [THEN conjunct1] by (simp add: a js_sub_def)
  show ?thesis
    using tok nc path cubic by blast
qed

end
